theory Spec2Isabelle
  imports Main "HOL-Library.AList"
begin

section \<open>Shared data\<close>

text \<open>
  Values of Python type \<open>Any\<close> that are only stored and passed on (intent parameters,
  signal values, contracts, schemas) are JSON values. A \<open>dict\<close> is an association list in
  insertion order: \<open>d[k] = v\<close> is \<open>AList.update k v d\<close> (an existing key keeps its
  position, a new key goes to the end), \<open>d.get(k)\<close> is \<open>map_of d k\<close>, \<open>del d[k]\<close> is
  \<open>AList.delete k d\<close>. A UUID is its canonical text, so \<open>str(u)\<close> is \<open>u\<close>; a
  \<open>datetime\<close> is a number of ticks.
\<close>

datatype json =
    JNull
  | JBool bool
  | JInt int
  | JStr string
  | JList "json list"
  | JDict "(string \<times> json) list"

type_synonym UUID = string
type_synonym datetime = nat

text \<open>What an awaited call on an external collaborator does: it returns, or it raises
  an exception whose \<open>str\<close> is the carried text.\<close>

datatype 'a outcome = Returns 'a | Raises string

definition DOMAIN :: string where
  "DOMAIN = ''data-fabric''"

section \<open>Intent handler (integration/mcop/intent\_handler.py)\<close>

text \<open>\<open>ExecutionUnitRef\<close>; the fields \<open>name\<close>, \<open>capability_type\<close>, \<open>input_mapping\<close>
  carry the prefix \<open>eu_\<close> because other records of this theory have fields of the same name.\<close>

record ExecutionUnitRef =
  eu_name :: string
  eu_capability_type :: string
  eu_input_mapping :: "(string \<times> string) list"

definition INTENT_TO_EXECUTION_UNITS :: "(string \<times> ExecutionUnitRef list) list" where
  "INTENT_TO_EXECUTION_UNITS = [
    (''RegisterDataAsset'', [
      \<lparr>eu_name = ''DataAssetRegistrar'', eu_capability_type = ''data-registration'',
       eu_input_mapping = [(''asset_declaration'', ''asset_declaration'')]\<rparr>]),
    (''IngestData'', [
      \<lparr>eu_name = ''DataExtractor'', eu_capability_type = ''data-extraction'',
       eu_input_mapping = [
         (''source_connection_ref'', ''extraction_input.source_connection_ref''),
         (''source_query_or_path'', ''extraction_input.source_query_or_path'')]\<rparr>,
      \<lparr>eu_name = ''DataWriter'', eu_capability_type = ''data-writing'',
       eu_input_mapping = [
         (''staging_ref'', ''write_input.staging_ref''),
         (''target_dataset_ref'', ''write_input.target_dataset_ref'')]\<rparr>,
      \<lparr>eu_name = ''LineageEdgeWriter'', eu_capability_type = ''lineage-recording'',
       eu_input_mapping = [
         (''source_asset_ref'', ''edge_input.source_asset_ref''),
         (''target_asset_ref'', ''edge_input.target_asset_ref'')]\<rparr>]),
    (''TransformData'', [
      \<lparr>eu_name = ''TransformExecutor'', eu_capability_type = ''data-transformation'',
       eu_input_mapping = [
         (''input_data_ref'', ''transform_input.input_data_ref''),
         (''transformation_definition'', ''transform_input.transformation_definition'')]\<rparr>,
      \<lparr>eu_name = ''DataWriter'', eu_capability_type = ''data-writing'',
       eu_input_mapping = [
         (''staging_ref'', ''write_input.staging_ref''),
         (''target_dataset_ref'', ''write_input.target_dataset_ref'')]\<rparr>,
      \<lparr>eu_name = ''LineageEdgeWriter'', eu_capability_type = ''lineage-recording'',
       eu_input_mapping = [
         (''source_asset_ref'', ''edge_input.source_asset_ref''),
         (''target_asset_ref'', ''edge_input.target_asset_ref'')]\<rparr>]),
    (''MaterializeFeatures'', [
      \<lparr>eu_name = ''FeatureComputer'', eu_capability_type = ''feature-computation'',
       eu_input_mapping = [
         (''source_data_ref'', ''compute_input.source_data_ref''),
         (''feature_definition_ref'', ''compute_input.feature_definition_ref'')]\<rparr>,
      \<lparr>eu_name = ''FeatureStoreWriter'', eu_capability_type = ''feature-storage'',
       eu_input_mapping = [
         (''staging_ref'', ''write_input.staging_ref''),
         (''feature_set_ref'', ''write_input.feature_set_ref'')]\<rparr>]),
    (''RetrieveFeatures'', [
      \<lparr>eu_name = ''FeatureRetriever'', eu_capability_type = ''feature-retrieval'',
       eu_input_mapping = [
         (''feature_set_ref'', ''retrieve_input.feature_set_ref''),
         (''entity_keys'', ''retrieve_input.entity_keys'')]\<rparr>]),
    (''ProfileData'', [
      \<lparr>eu_name = ''DataProfiler'', eu_capability_type = ''data-profiling'',
       eu_input_mapping = [
         (''dataset_ref'', ''profile_input.dataset_ref''),
         (''sample_size'', ''profile_input.sample_size'')]\<rparr>]),
    (''CommitDataVersion'', [
      \<lparr>eu_name = ''DataCommitter'', eu_capability_type = ''data-versioning'',
       eu_input_mapping = [
         (''dataset_ref'', ''commit_input.dataset_ref''),
         (''commit_message'', ''commit_input.commit_message'')]\<rparr>]),
    (''BranchDataset'', [
      \<lparr>eu_name = ''BranchCreator'', eu_capability_type = ''data-branching'',
       eu_input_mapping = [
         (''dataset_ref'', ''branch_input.dataset_ref''),
         (''source_commit_ref'', ''branch_input.source_commit_ref'')]\<rparr>]),
    (''MergeDataBranches'', [
      \<lparr>eu_name = ''MergeComputer'', eu_capability_type = ''data-merging'',
       eu_input_mapping = [
         (''source_commit_ref'', ''merge_input.source_commit_ref''),
         (''target_commit_ref'', ''merge_input.target_commit_ref'')]\<rparr>,
      \<lparr>eu_name = ''DataCommitter'', eu_capability_type = ''data-versioning'',
       eu_input_mapping = [
         (''dataset_ref'', ''commit_input.dataset_ref''),
         (''commit_message'', ''commit_input.commit_message'')]\<rparr>]),
    (''CreateLabelTask'', [
      \<lparr>eu_name = ''LabelTaskCreator'', eu_capability_type = ''labeling-task'',
       eu_input_mapping = [
         (''source_dataset_ref'', ''task_input.source_dataset_ref''),
         (''label_schema_ref'', ''task_input.label_schema_ref'')]\<rparr>]),
    (''TestConnection'', [
      \<lparr>eu_name = ''ConnectionProbe'', eu_capability_type = ''connection-testing'',
       eu_input_mapping = [
         (''connection_ref'', ''probe_input.connection_ref''),
         (''timeout_seconds'', ''probe_input.timeout_seconds'')]\<rparr>]),
    (''DiscoverSchema'', [
      \<lparr>eu_name = ''SchemaIntrospector'', eu_capability_type = ''schema-discovery'',
       eu_input_mapping = [
         (''connection_ref'', ''introspection_input.connection_ref''),
         (''source_path'', ''introspection_input.source_path'')]\<rparr>]),
    (''ReplicateData'', [
      \<lparr>eu_name = ''DataReplicator'', eu_capability_type = ''data-replication'',
       eu_input_mapping = [
         (''source_location_ref'', ''replication_input.source_location_ref''),
         (''target_location_ref'', ''replication_input.target_location_ref'')]\<rparr>]),
    (''QueryLocality'', [
      \<lparr>eu_name = ''LocalitySignalGenerator'', eu_capability_type = ''locality-signaling'',
       eu_input_mapping = [(''asset_ref'', ''asset_ref'')]\<rparr>]),
    (''ValidateSchema'', [
      \<lparr>eu_name = ''SchemaValidator'', eu_capability_type = ''schema-validation'',
       eu_input_mapping = [
         (''dataset_ref'', ''validation_input.dataset_ref''),
         (''expected_schema_ref'', ''validation_input.expected_schema_ref'')]\<rparr>])]"

text \<open>One entry of \<open>eu_specs\<close>: the dict with keys \<open>name\<close>, \<open>capability_type\<close>,
  \<open>input_mapping\<close>, \<open>domain\<close>.\<close>

record eu_spec =
  spec_name :: string
  spec_capability_type :: string
  spec_input_mapping :: "(string \<times> string) list"
  spec_domain :: string

text \<open>The dict returned by \<open>handle_intent\<close>: \<open>success\<close> and \<open>domain\<close> are always
  present, every other key is present on one path only (absent is \<open>None\<close>).\<close>

record intent_result =
  ir_success :: bool
  ir_error :: "string option"
  ir_domain :: string
  ir_intent_id :: "string option"
  ir_intent_type :: "string option"
  ir_execution_units :: "eu_spec list option"
  ir_unit_count :: "nat option"

text \<open>The optional \<open>IntentEngine\<close>: what \<open>decompose_intent(intent_id, execution_units)\<close>
  does. \<open>handle_intent\<close> calls it at most once, so a function of the arguments covers a
  stateful engine too.\<close>

type_synonym IntentEngine = "UUID \<Rightarrow> eu_spec list \<Rightarrow> bool outcome"

definition SUPPORTED_INTENTS :: "string set" where
  "SUPPORTED_INTENTS = set (map fst INTENT_TO_EXECUTION_UNITS)"

definition get_execution_units_for_intent :: "string \<Rightarrow> ExecutionUnitRef list option" where
  "get_execution_units_for_intent intent_type = map_of INTENT_TO_EXECUTION_UNITS intent_type"

definition is_supported_intent :: "string \<Rightarrow> bool" where
  "is_supported_intent intent_type \<longleftrightarrow> intent_type \<in> SUPPORTED_INTENTS"

definition intent_failure :: "string \<Rightarrow> intent_result" where
  "intent_failure msg =
     \<lparr>ir_success = False, ir_error = Some msg, ir_domain = DOMAIN, ir_intent_id = None,
      ir_intent_type = None, ir_execution_units = None, ir_unit_count = None\<rparr>"

definition build_eu_specs :: "ExecutionUnitRef list \<Rightarrow> eu_spec list" where
  "build_eu_specs execution_units =
     map (\<lambda>eu. \<lparr>spec_name = eu_name eu, spec_capability_type = eu_capability_type eu,
                 spec_input_mapping = eu_input_mapping eu, spec_domain = DOMAIN\<rparr>)
         execution_units"

definition intent_success :: "UUID \<Rightarrow> string \<Rightarrow> eu_spec list \<Rightarrow> intent_result" where
  "intent_success intent_id intent_type eu_specs =
     \<lparr>ir_success = True, ir_error = None, ir_domain = DOMAIN, ir_intent_id = Some intent_id,
      ir_intent_type = Some intent_type, ir_execution_units = Some eu_specs,
      ir_unit_count = Some (length eu_specs)\<rparr>"

definition handle_intent ::
  "IntentEngine option \<Rightarrow> UUID \<Rightarrow> string \<Rightarrow> (string \<times> json) list \<Rightarrow> intent_result" where
  "handle_intent intent_engine intent_id intent_type intent_params =
     (if \<not> is_supported_intent intent_type
      then intent_failure (''Unsupported intent type: '' @ intent_type)
      else
        case get_execution_units_for_intent intent_type of
          None \<Rightarrow> intent_failure (''No execution units mapped for intent: '' @ intent_type)
        | Some [] \<Rightarrow> intent_failure (''No execution units mapped for intent: '' @ intent_type)
        | Some execution_units \<Rightarrow>
            (let eu_specs = build_eu_specs execution_units in
             case intent_engine of
               None \<Rightarrow> intent_success intent_id intent_type eu_specs
             | Some engine \<Rightarrow>
                 (case engine intent_id eu_specs of
                    Raises e \<Rightarrow> intent_failure (''Failed to submit decomposition: '' @ e)
                  | Returns _ \<Rightarrow> intent_success intent_id intent_type eu_specs)))"

section \<open>Capability provider (integration/mcop/capability\_provider.py)\<close>

text \<open>\<open>CapabilityProfile\<close>; \<open>capability_type\<close> and \<open>tags\<close> carry the prefix \<open>cp_\<close>.\<close>

record CapabilityProfile =
  cp_capability_type :: string
  compute_class :: string
  memory_requirements :: string
  io_pattern :: string
  cp_tags :: "string list"

definition EXECUTION_UNIT_CAPABILITIES :: "(string \<times> CapabilityProfile) list" where
  "EXECUTION_UNIT_CAPABILITIES = [
    (''DataAssetRegistrar'',
      \<lparr>cp_capability_type = ''data-registration'', compute_class = ''cpu-small'',
       memory_requirements = ''low'', io_pattern = ''write-registry'',
       cp_tags = [''registry'', ''metadata'', ''stateless'']\<rparr>),
    (''ConnectionProbe'',
      \<lparr>cp_capability_type = ''connection-testing'', compute_class = ''cpu-small'',
       memory_requirements = ''low'', io_pattern = ''network-probe'',
       cp_tags = [''connection'', ''health'', ''stateless'']\<rparr>),
    (''SchemaIntrospector'',
      \<lparr>cp_capability_type = ''schema-discovery'', compute_class = ''cpu-small'',
       memory_requirements = ''low'', io_pattern = ''read-external'',
       cp_tags = [''schema'', ''discovery'', ''stateless'']\<rparr>),
    (''DataExtractor'',
      \<lparr>cp_capability_type = ''data-extraction'', compute_class = ''cpu-medium'',
       memory_requirements = ''medium'', io_pattern = ''read-external-write-staging'',
       cp_tags = [''extraction'', ''ingestion'', ''stateless'']\<rparr>),
    (''DataWriter'',
      \<lparr>cp_capability_type = ''data-writing'', compute_class = ''cpu-medium'',
       memory_requirements = ''medium'', io_pattern = ''read-staging-write-dataset'',
       cp_tags = [''write'', ''persistence'', ''stateless'']\<rparr>),
    (''TransformExecutor'',
      \<lparr>cp_capability_type = ''data-transformation'', compute_class = ''cpu-large'',
       memory_requirements = ''high'', io_pattern = ''read-process-write'',
       cp_tags = [''transform'', ''processing'', ''stateless'']\<rparr>),
    (''DataJoiner'',
      \<lparr>cp_capability_type = ''data-joining'', compute_class = ''cpu-large'',
       memory_requirements = ''high'', io_pattern = ''read-multi-write'',
       cp_tags = [''join'', ''merge'', ''stateless'']\<rparr>),
    (''AggregationComputer'',
      \<lparr>cp_capability_type = ''data-aggregation'', compute_class = ''cpu-medium'',
       memory_requirements = ''high'', io_pattern = ''read-aggregate-write'',
       cp_tags = [''aggregation'', ''analytics'', ''stateless'']\<rparr>),
    (''FeatureComputer'',
      \<lparr>cp_capability_type = ''feature-computation'', compute_class = ''cpu-large'',
       memory_requirements = ''high'', io_pattern = ''read-compute-write'',
       cp_tags = [''feature'', ''ml'', ''stateless'']\<rparr>),
    (''FeatureStoreWriter'',
      \<lparr>cp_capability_type = ''feature-storage'', compute_class = ''cpu-medium'',
       memory_requirements = ''medium'', io_pattern = ''read-staging-write-store'',
       cp_tags = [''feature'', ''store'', ''stateless'']\<rparr>),
    (''FeatureRetriever'',
      \<lparr>cp_capability_type = ''feature-retrieval'', compute_class = ''cpu-small'',
       memory_requirements = ''low'', io_pattern = ''read-store'',
       cp_tags = [''feature'', ''retrieval'', ''stateless'']\<rparr>),
    (''DataProfiler'',
      \<lparr>cp_capability_type = ''data-profiling'', compute_class = ''cpu-medium'',
       memory_requirements = ''medium'', io_pattern = ''read-analyze'',
       cp_tags = [''profiling'', ''quality'', ''stateless'']\<rparr>),
    (''SchemaValidator'',
      \<lparr>cp_capability_type = ''schema-validation'', compute_class = ''cpu-small'',
       memory_requirements = ''low'', io_pattern = ''read-validate'',
       cp_tags = [''schema'', ''validation'', ''stateless'']\<rparr>),
    (''DataCommitter'',
      \<lparr>cp_capability_type = ''data-versioning'', compute_class = ''cpu-small'',
       memory_requirements = ''low'', io_pattern = ''read-commit'',
       cp_tags = [''commit'', ''versioning'', ''stateless'']\<rparr>),
    (''BranchCreator'',
      \<lparr>cp_capability_type = ''data-branching'', compute_class = ''cpu-small'',
       memory_requirements = ''low'', io_pattern = ''write-registry'',
       cp_tags = [''branch'', ''versioning'', ''stateless'']\<rparr>),
    (''MergeComputer'',
      \<lparr>cp_capability_type = ''data-merging'', compute_class = ''cpu-medium'',
       memory_requirements = ''medium'', io_pattern = ''read-multi-compute'',
       cp_tags = [''merge'', ''versioning'', ''stateless'']\<rparr>),
    (''DataReplicator'',
      \<lparr>cp_capability_type = ''data-replication'', compute_class = ''cpu-medium'',
       memory_requirements = ''medium'', io_pattern = ''read-write-remote'',
       cp_tags = [''replication'', ''locality'', ''stateless'']\<rparr>),
    (''LocalitySignalGenerator'',
      \<lparr>cp_capability_type = ''locality-signaling'', compute_class = ''cpu-small'',
       memory_requirements = ''low'', io_pattern = ''read-probe'',
       cp_tags = [''locality'', ''scheduling'', ''stateless'']\<rparr>),
    (''LabelTaskCreator'',
      \<lparr>cp_capability_type = ''labeling-task'', compute_class = ''cpu-small'',
       memory_requirements = ''low'', io_pattern = ''write-registry'',
       cp_tags = [''labeling'', ''task'', ''stateless'']\<rparr>),
    (''LabelRecorder'',
      \<lparr>cp_capability_type = ''label-recording'', compute_class = ''cpu-small'',
       memory_requirements = ''low'', io_pattern = ''write-store'',
       cp_tags = [''labeling'', ''annotation'', ''stateless'']\<rparr>),
    (''LineageEdgeWriter'',
      \<lparr>cp_capability_type = ''lineage-recording'', compute_class = ''cpu-small'',
       memory_requirements = ''low'', io_pattern = ''write-registry'',
       cp_tags = [''lineage'', ''provenance'', ''stateless'']\<rparr>),
    (''QualityGateEvaluator'',
      \<lparr>cp_capability_type = ''quality-evaluation'', compute_class = ''cpu-medium'',
       memory_requirements = ''medium'', io_pattern = ''read-evaluate'',
       cp_tags = [''quality'', ''gate'', ''stateless'']\<rparr>)]"

text \<open>The optional \<open>MCOPScheduler\<close>: what \<open>provide_capability(name, profile)\<close> does.
  \<open>provide_all_capabilities\<close> calls it once for each of the pairwise different names of
  the table, so a function of the arguments covers a stateful scheduler too.\<close>

type_synonym MCOPScheduler = "string \<Rightarrow> CapabilityProfile \<Rightarrow> bool outcome"

text \<open>The provider object. \<open>cp_stdout\<close> is the text it has printed.\<close>

record DataFabricCapabilityProvider =
  mcop_scheduler :: "MCOPScheduler option"
  provided_capabilities :: "string set"
  cp_stdout :: "string list"

definition DataFabricCapabilityProvider_init ::
  "MCOPScheduler option \<Rightarrow> DataFabricCapabilityProvider" where
  "DataFabricCapabilityProvider_init sched =
     \<lparr>mcop_scheduler = sched, provided_capabilities = {}, cp_stdout = []\<rparr>"

text \<open>The loop of \<open>provide_all_capabilities\<close> over the items of the table.\<close>

fun provide_loop ::
  "MCOPScheduler \<Rightarrow> (string \<times> CapabilityProfile) list \<Rightarrow> (string \<times> bool) list \<Rightarrow>
   DataFabricCapabilityProvider \<Rightarrow> (string \<times> bool) list \<times> DataFabricCapabilityProvider" where
  "provide_loop sched [] results p = (results, p)"
| "provide_loop sched ((name, profile) # rest) results p =
     (case sched name profile of
        Returns success \<Rightarrow>
          provide_loop sched rest (AList.update name success results)
            (if success
             then p\<lparr>provided_capabilities := insert name (provided_capabilities p)\<rparr>
             else p)
      | Raises e \<Rightarrow>
          provide_loop sched rest (AList.update name False results)
            (p\<lparr>cp_stdout := cp_stdout p @
                 [''Warning: Failed to provide capability '' @ name @ '': '' @ e]\<rparr>))"

definition provide_all_capabilities ::
  "DataFabricCapabilityProvider \<Rightarrow> (string \<times> bool) list \<times> DataFabricCapabilityProvider" where
  "provide_all_capabilities p =
     (case mcop_scheduler p of
        None \<Rightarrow>
          (fold (\<lambda>name d. AList.update name True d) (map fst EXECUTION_UNIT_CAPABILITIES) [], p)
      | Some sched \<Rightarrow> provide_loop sched EXECUTION_UNIT_CAPABILITIES [] p)"

definition get_provided_capabilities :: "DataFabricCapabilityProvider \<Rightarrow> string set" where
  "get_provided_capabilities p = provided_capabilities p"

definition get_capability_count :: nat where
  "get_capability_count = length EXECUTION_UNIT_CAPABILITIES"

section \<open>Feedback signal registry (integration/observability/signal\_registry.py)\<close>

text \<open>
  The dict \<open>emission_trigger\<close> is read at the keys \<open>condition\<close> and
  \<open>execution_units\<close> only; an absent key is \<open>None\<close>. The values have the types of the
  declarative signal format: a string and a list of strings.
\<close>

record emission_trigger_dict =
  condition :: "string option"
  execution_units :: "string list option"

text \<open>\<open>SignalDefinition\<close>; \<open>name\<close>, \<open>version\<close>, \<open>signal_type\<close>, \<open>description\<close>,
  \<open>schema\<close> and \<open>domain\<close> carry the prefix \<open>sd_\<close>. Each entry of
  \<open>intended_consumers\<close> is a \<open>dict[str, str]\<close>.\<close>

record SignalDefinition =
  sd_name :: string
  sd_version :: string
  sd_signal_type :: string
  sd_description :: string
  emission_trigger :: emission_trigger_dict
  sd_schema :: "(string \<times> json) list"
  intended_consumers :: "(string \<times> string) list list"
  sd_domain :: string

record SignalRegistry =
  metrics :: "(string \<times> SignalDefinition) list"
  outcomes :: "(string \<times> SignalDefinition) list"
  advisors :: "(string \<times> SignalDefinition) list"

definition SignalRegistry_init :: SignalRegistry where
  "SignalRegistry_init = \<lparr>metrics = [], outcomes = [], advisors = []\<rparr>"

definition add :: "SignalRegistry \<Rightarrow> SignalDefinition \<Rightarrow> SignalRegistry" where
  "add r signal =
     (if sd_signal_type signal = ''metric''
      then r\<lparr>metrics := AList.update (sd_name signal) signal (metrics r)\<rparr>
      else if sd_signal_type signal = ''outcome''
      then r\<lparr>outcomes := AList.update (sd_name signal) signal (outcomes r)\<rparr>
      else if sd_signal_type signal = ''advisor''
      then r\<lparr>advisors := AList.update (sd_name signal) signal (advisors r)\<rparr>
      else r)"

text \<open>\<open>a.get(n) or b.get(n) or c.get(n)\<close>: a \<open>SignalDefinition\<close> object is truthy, so
  this is the first lookup that finds the name.\<close>

definition get :: "SignalRegistry \<Rightarrow> string \<Rightarrow> SignalDefinition option" where
  "get r name =
     (case map_of (metrics r) name of
        Some s \<Rightarrow> Some s
      | None \<Rightarrow>
          (case map_of (outcomes r) name of
             Some s \<Rightarrow> Some s
           | None \<Rightarrow> map_of (advisors r) name))"

definition get_all :: "SignalRegistry \<Rightarrow> SignalDefinition list" where
  "get_all r = map snd (metrics r) @ map snd (outcomes r) @ map snd (advisors r)"

definition get_by_type :: "SignalRegistry \<Rightarrow> string \<Rightarrow> SignalDefinition list" where
  "get_by_type r signal_type =
     (if signal_type = ''metric'' then map snd (metrics r)
      else if signal_type = ''outcome'' then map snd (outcomes r)
      else if signal_type = ''advisor'' then map snd (advisors r)
      else [])"

text \<open>
  A declarative signal source. \<open>json.load\<close> either raises \<open>JSONDecodeError\<close> (with its
  text) or yields the object; the object's keys are optional, and a present key has the
  type of the declarative format.
\<close>

datatype 'a json_load = JSONDecodeError string | Loaded 'a

record signal_metadata =
  sm_name :: "string option"
  sm_version :: "string option"
  sm_domain :: "string option"

record signal_data =
  sf_metadata :: "signal_metadata option"
  sf_signal_type :: "string option"
  sf_description :: "string option"
  sf_emission_trigger :: "emission_trigger_dict option"
  sf_schema :: "(string \<times> json) list option"
  sf_intended_consumers :: "(string \<times> string) list list option"

text \<open>\<open>d.get(k, default)\<close> on an optional key.\<close>

definition get_default :: "'a option \<Rightarrow> 'a \<Rightarrow> 'a" where
  "get_default v d = (case v of None \<Rightarrow> d | Some x \<Rightarrow> x)"

definition load_signal_from_data :: "signal_data \<Rightarrow> SignalDefinition" where
  "load_signal_from_data data =
     (let metadata = get_default (sf_metadata data)
                       \<lparr>sm_name = None, sm_version = None, sm_domain = None\<rparr>
      in \<lparr>sd_name = get_default (sm_name metadata) '''',
          sd_version = get_default (sm_version metadata) ''1.0.0'',
          sd_signal_type = get_default (sf_signal_type data) ''metric'',
          sd_description = get_default (sf_description data) '''',
          emission_trigger = get_default (sf_emission_trigger data)
                               \<lparr>condition = None, execution_units = None\<rparr>,
          sd_schema = get_default (sf_schema data) [],
          intended_consumers = get_default (sf_intended_consumers data) [],
          sd_domain = get_default (sm_domain metadata) DOMAIN\<rparr>)"

text \<open>
  The \<open>FeedbackSignalRegistry\<close> object together with the directory it reads:
  \<open>signal_files\<close> is \<open>None\<close> when the directory does not exist, else the \<open>*.json\<close> files
  in sorted order, each with its path and what \<open>json.load\<close> does on it. \<open>fsr_stdout\<close> is
  the text printed by the object.
\<close>

record FeedbackSignalRegistry =
  signal_files :: "(string \<times> signal_data json_load) list option"
  fsr_registry :: SignalRegistry
  loaded :: bool
  fsr_stdout :: "string list"

definition FeedbackSignalRegistry_init ::
  "(string \<times> signal_data json_load) list option \<Rightarrow> FeedbackSignalRegistry" where
  "FeedbackSignalRegistry_init files =
     \<lparr>signal_files = files, fsr_registry = SignalRegistry_init, loaded = False,
      fsr_stdout = []\<rparr>"

fun load_files ::
  "(string \<times> signal_data json_load) list \<Rightarrow> FeedbackSignalRegistry \<Rightarrow> FeedbackSignalRegistry" where
  "load_files [] f = f"
| "load_files ((signal_file, Loaded data) # rest) f =
     load_files rest (f\<lparr>fsr_registry := add (fsr_registry f) (load_signal_from_data data)\<rparr>)"
| "load_files ((signal_file, JSONDecodeError e) # rest) f =
     load_files rest
       (f\<lparr>fsr_stdout := fsr_stdout f @
            [''Warning: Failed to load signal '' @ signal_file @ '': '' @ e]\<rparr>)"

definition load :: "FeedbackSignalRegistry \<Rightarrow> FeedbackSignalRegistry" where
  "load f =
     (case signal_files f of
        None \<Rightarrow> f
      | Some files \<Rightarrow> (load_files files f)\<lparr>loaded := True\<rparr>)"

definition get_registry :: "FeedbackSignalRegistry \<Rightarrow> SignalRegistry \<times> FeedbackSignalRegistry" where
  "get_registry f = (let f' = (if \<not> loaded f then load f else f) in (fsr_registry f', f'))"

definition get_signal ::
  "FeedbackSignalRegistry \<Rightarrow> string \<Rightarrow> SignalDefinition option \<times> FeedbackSignalRegistry" where
  "get_signal f name = (case get_registry f of (r, f') \<Rightarrow> (get r name, f'))"

definition get_signals_for_execution_unit ::
  "FeedbackSignalRegistry \<Rightarrow> string \<Rightarrow> SignalDefinition list \<times> FeedbackSignalRegistry" where
  "get_signals_for_execution_unit f unit_name =
     (case get_registry f of
        (registry, f') \<Rightarrow>
          (filter (\<lambda>signal.
                     unit_name \<in> set (get_default (execution_units (emission_trigger signal)) []))
                  (get_all registry),
           f'))"

section \<open>Feedback signal emitter (integration/observability/signal\_emitter.py)\<close>

text \<open>A call on the \<open>ObservabilitySpine\<close>, with its keyword arguments in the order
  name, value, tenant context, (intended consumer,) timestamp.\<close>

datatype spine_call =
    SpineEmitMetric string "(string \<times> json) list" "(string \<times> string) list" datetime
  | SpineEmitOutcome string "(string \<times> json) list" "(string \<times> string) list" datetime
  | SpineEmitAdvisor string "(string \<times> json) list" "(string \<times> string) list" string datetime

text \<open>The spine is an external object with a state of its own: what a call does may
  depend on the calls made before it.\<close>

type_synonym ObservabilitySpine = "spine_call list \<Rightarrow> spine_call \<Rightarrow> bool outcome"

record EmissionResult =
  signal_name :: string
  signal_type :: string
  success :: bool
  emission_id :: UUID
  timestamp :: datetime
  error :: "string option"

text \<open>
  The emitter object (\<open>spine\<close>, \<open>signal_registry\<close>, \<open>emissions\<close>) together with the parts
  of the world its methods touch: \<open>spine_calls\<close> is the list of calls made on the spine so
  far, \<open>uuid4()\<close> yields \<open>uuid_source\<close> at the number of identifiers drawn so far, and
  \<open>datetime.now\<close> yields \<open>clock\<close> at the number of clock readings so far.
\<close>

record FeedbackSignalEmitter =
  spine :: "ObservabilitySpine option"
  signal_registry :: FeedbackSignalRegistry
  emissions :: "EmissionResult list"
  spine_calls :: "spine_call list"
  uuid_source :: "nat \<Rightarrow> UUID"
  uuids_drawn :: nat
  clock :: "nat \<Rightarrow> datetime"
  clock_reads :: nat

definition uuid4 :: "FeedbackSignalEmitter \<Rightarrow> UUID \<times> FeedbackSignalEmitter" where
  "uuid4 e = (uuid_source e (uuids_drawn e), e\<lparr>uuids_drawn := Suc (uuids_drawn e)\<rparr>)"

definition datetime_now :: "FeedbackSignalEmitter \<Rightarrow> datetime \<times> FeedbackSignalEmitter" where
  "datetime_now e = (clock e (clock_reads e), e\<lparr>clock_reads := Suc (clock_reads e)\<rparr>)"

text \<open>\<open>{"intent_id": str(intent_id), "domain": DOMAIN, **values}\<close>: the entries of
  \<open>values\<close> are stored in order over the two fixed ones.\<close>

definition build_payload :: "UUID \<Rightarrow> (string \<times> json) list \<Rightarrow> (string \<times> json) list" where
  "build_payload intent_id values =
     fold (\<lambda>(k, v) d. AList.update k v d) values
       [(''intent_id'', JStr intent_id), (''domain'', JStr DOMAIN)]"

definition record_emission ::
  "EmissionResult \<Rightarrow> FeedbackSignalEmitter \<Rightarrow> EmissionResult \<times> FeedbackSignalEmitter" where
  "record_emission result e = (result, e\<lparr>emissions := emissions e @ [result]\<rparr>)"

definition call_spine ::
  "ObservabilitySpine \<Rightarrow> spine_call \<Rightarrow> FeedbackSignalEmitter \<Rightarrow>
   bool outcome \<times> FeedbackSignalEmitter" where
  "call_spine sp c e = (sp (spine_calls e) c, e\<lparr>spine_calls := spine_calls e @ [c]\<rparr>)"

definition emit_metric ::
  "FeedbackSignalEmitter \<Rightarrow> string \<Rightarrow> UUID \<Rightarrow> (string \<times> string) list \<Rightarrow> (string \<times> json) list \<Rightarrow>
   EmissionResult \<times> FeedbackSignalEmitter" where
  "emit_metric e metric_name intent_id tenant_context values =
     (case get_signal (signal_registry e) metric_name of
        (signal_def, f') \<Rightarrow>
          (let e1 = e\<lparr>signal_registry := f'\<rparr> in
           if signal_def = None \<or> map_option sd_signal_type signal_def \<noteq> Some ''metric''
           then
             (case uuid4 e1 of (new_id, e2) \<Rightarrow>
              case datetime_now e2 of (now, e3) \<Rightarrow>
                (\<lparr>signal_name = metric_name, signal_type = ''metric'', success = False,
                  emission_id = new_id, timestamp = now,
                  error = Some (''Unknown metric: '' @ metric_name)\<rparr>, e3))
           else
             (case uuid4 e1 of (eid, e2) \<Rightarrow>
              case datetime_now e2 of (now, e3) \<Rightarrow>
              let payload = build_payload intent_id values in
              case spine e3 of
                Some sp \<Rightarrow>
                  (case call_spine sp (SpineEmitMetric metric_name payload tenant_context now) e3 of
                     (Raises msg, e4) \<Rightarrow>
                       record_emission
                         \<lparr>signal_name = metric_name, signal_type = ''metric'', success = False,
                          emission_id = eid, timestamp = now, error = Some msg\<rparr> e4
                   | (Returns ok, e4) \<Rightarrow>
                       record_emission
                         \<lparr>signal_name = metric_name, signal_type = ''metric'', success = ok,
                          emission_id = eid, timestamp = now, error = None\<rparr> e4)
              | None \<Rightarrow>
                  record_emission
                    \<lparr>signal_name = metric_name, signal_type = ''metric'', success = True,
                     emission_id = eid, timestamp = now, error = None\<rparr> e3)))"

definition emit_outcome ::
  "FeedbackSignalEmitter \<Rightarrow> string \<Rightarrow> UUID \<Rightarrow> (string \<times> string) list \<Rightarrow> (string \<times> json) list \<Rightarrow>
   EmissionResult \<times> FeedbackSignalEmitter" where
  "emit_outcome e outcome_name intent_id tenant_context values =
     (case get_signal (signal_registry e) outcome_name of
        (signal_def, f') \<Rightarrow>
          (let e1 = e\<lparr>signal_registry := f'\<rparr> in
           if signal_def = None \<or> map_option sd_signal_type signal_def \<noteq> Some ''outcome''
           then
             (case uuid4 e1 of (new_id, e2) \<Rightarrow>
              case datetime_now e2 of (now, e3) \<Rightarrow>
                (\<lparr>signal_name = outcome_name, signal_type = ''outcome'', success = False,
                  emission_id = new_id, timestamp = now,
                  error = Some (''Unknown outcome: '' @ outcome_name)\<rparr>, e3))
           else
             (case uuid4 e1 of (eid, e2) \<Rightarrow>
              case datetime_now e2 of (now, e3) \<Rightarrow>
              let payload = build_payload intent_id values in
              case spine e3 of
                Some sp \<Rightarrow>
                  (case call_spine sp (SpineEmitOutcome outcome_name payload tenant_context now) e3 of
                     (Raises msg, e4) \<Rightarrow>
                       record_emission
                         \<lparr>signal_name = outcome_name, signal_type = ''outcome'', success = False,
                          emission_id = eid, timestamp = now, error = Some msg\<rparr> e4
                   | (Returns ok, e4) \<Rightarrow>
                       record_emission
                         \<lparr>signal_name = outcome_name, signal_type = ''outcome'', success = ok,
                          emission_id = eid, timestamp = now, error = None\<rparr> e4)
              | None \<Rightarrow>
                  record_emission
                    \<lparr>signal_name = outcome_name, signal_type = ''outcome'', success = True,
                     emission_id = eid, timestamp = now, error = None\<rparr> e3)))"

definition emit_advisor ::
  "FeedbackSignalEmitter \<Rightarrow> string \<Rightarrow> UUID \<Rightarrow> (string \<times> string) list \<Rightarrow> (string \<times> json) list \<Rightarrow>
   string \<Rightarrow> EmissionResult \<times> FeedbackSignalEmitter" where
  "emit_advisor e advisor_name intent_id tenant_context values intended_consumer =
     (case get_signal (signal_registry e) advisor_name of
        (signal_def, f') \<Rightarrow>
          (let e1 = e\<lparr>signal_registry := f'\<rparr> in
           if signal_def = None \<or> map_option sd_signal_type signal_def \<noteq> Some ''advisor''
           then
             (case uuid4 e1 of (new_id, e2) \<Rightarrow>
              case datetime_now e2 of (now, e3) \<Rightarrow>
                (\<lparr>signal_name = advisor_name, signal_type = ''advisor'', success = False,
                  emission_id = new_id, timestamp = now,
                  error = Some (''Unknown advisor: '' @ advisor_name)\<rparr>, e3))
           else
             (case uuid4 e1 of (eid, e2) \<Rightarrow>
              case datetime_now e2 of (now, e3) \<Rightarrow>
              let payload = build_payload intent_id values in
              case spine e3 of
                Some sp \<Rightarrow>
                  (case call_spine sp
                          (SpineEmitAdvisor advisor_name payload tenant_context intended_consumer now)
                          e3 of
                     (Raises msg, e4) \<Rightarrow>
                       record_emission
                         \<lparr>signal_name = advisor_name, signal_type = ''advisor'', success = False,
                          emission_id = eid, timestamp = now, error = Some msg\<rparr> e4
                   | (Returns ok, e4) \<Rightarrow>
                       record_emission
                         \<lparr>signal_name = advisor_name, signal_type = ''advisor'', success = ok,
                          emission_id = eid, timestamp = now, error = None\<rparr> e4)
              | None \<Rightarrow>
                  record_emission
                    \<lparr>signal_name = advisor_name, signal_type = ''advisor'', success = True,
                     emission_id = eid, timestamp = now, error = None\<rparr> e3)))"

text \<open>An exception that escapes a method of this layer.\<close>

datatype py_error = KeyError string

text \<open>\<open>consumers[0]["consumer"] if consumers else "unknown"\<close>: the subscript raises
  \<open>KeyError\<close> when the first consumer entry has no key \<open>consumer\<close>.\<close>

definition first_consumer :: "(string \<times> string) list list \<Rightarrow> py_error + string" where
  "first_consumer consumers =
     (case consumers of
        [] \<Rightarrow> Inr ''unknown''
      | c # _ \<Rightarrow>
          (case map_of c ''consumer'' of
             None \<Rightarrow> Inl (KeyError ''consumer'')
           | Some consumer \<Rightarrow> Inr consumer))"

text \<open>The loop of \<open>emit_for_execution_unit\<close> over the signals of the unit.\<close>

fun emit_signals ::
  "FeedbackSignalEmitter \<Rightarrow> UUID \<Rightarrow> (string \<times> string) list \<Rightarrow> (string \<times> json) list \<Rightarrow> bool \<Rightarrow>
   SignalDefinition list \<Rightarrow> EmissionResult list \<Rightarrow>
   py_error + (EmissionResult list \<times> FeedbackSignalEmitter)" where
  "emit_signals e intent_id tenant_context execution_result ok [] results = Inr (results, e)"
| "emit_signals e intent_id tenant_context execution_result ok (signal_def # rest) results =
     (let cond = get_default (condition (emission_trigger signal_def)) ''always'' in
      if cond = ''on_success'' \<and> \<not> ok
      then emit_signals e intent_id tenant_context execution_result ok rest results
      else if cond = ''on_failure'' \<and> ok
      then emit_signals e intent_id tenant_context execution_result ok rest results
      else if sd_signal_type signal_def = ''metric''
      then
        (case emit_metric e (sd_name signal_def) intent_id tenant_context execution_result of
           (result, e') \<Rightarrow>
             emit_signals e' intent_id tenant_context execution_result ok rest (results @ [result]))
      else if sd_signal_type signal_def = ''outcome''
      then
        (case emit_outcome e (sd_name signal_def) intent_id tenant_context execution_result of
           (result, e') \<Rightarrow>
             emit_signals e' intent_id tenant_context execution_result ok rest (results @ [result]))
      else if sd_signal_type signal_def = ''advisor''
      then
        (case first_consumer (intended_consumers signal_def) of
           Inl err \<Rightarrow> Inl err
         | Inr consumer \<Rightarrow>
             (case emit_advisor e (sd_name signal_def) intent_id tenant_context execution_result
                     consumer of
                (result, e') \<Rightarrow>
                  emit_signals e' intent_id tenant_context execution_result ok rest
                    (results @ [result])))
      else emit_signals e intent_id tenant_context execution_result ok rest results)"

definition emit_for_execution_unit ::
  "FeedbackSignalEmitter \<Rightarrow> string \<Rightarrow> UUID \<Rightarrow> (string \<times> string) list \<Rightarrow> (string \<times> json) list \<Rightarrow>
   bool \<Rightarrow> py_error + (EmissionResult list \<times> FeedbackSignalEmitter)" where
  "emit_for_execution_unit e execution_unit_name intent_id tenant_context execution_result ok =
     (case get_signals_for_execution_unit (signal_registry e) execution_unit_name of
        (signals, f') \<Rightarrow>
          emit_signals (e\<lparr>signal_registry := f'\<rparr>) intent_id tenant_context execution_result ok
            signals [])"

definition get_emissions :: "FeedbackSignalEmitter \<Rightarrow> EmissionResult list" where
  "get_emissions e = emissions e"

definition clear_emissions :: "FeedbackSignalEmitter \<Rightarrow> FeedbackSignalEmitter" where
  "clear_emissions e = e\<lparr>emissions := []\<rparr>"

section \<open>Registry card loader (integration/mcop/registry\_loader.py)\<close>

text \<open>\<open>RegistryCard\<close>; \<open>name\<close>, \<open>version\<close>, \<open>domain\<close>, \<open>capability_type\<close> and
  \<open>description\<close> carry the prefix \<open>card_\<close>.\<close>

record RegistryCard =
  card_name :: string
  card_version :: string
  card_domain :: string
  card_capability_type :: string
  capability_tags :: "string list"
  card_description :: string
  input_contract :: "(string \<times> json) list"
  output_contract :: "(string \<times> json) list"
  consumer_intents :: "string list"
  failure_modes :: "string list"
  adr_reference :: string

text \<open>
  A declarative card source, as for signals: the parsed object with optional keys, the
  present ones of the type the declarative card format gives them.
\<close>

record card_metadata =
  cm_name :: "string option"
  cm_version :: "string option"
  cm_domain :: "string option"
  cm_adr_reference :: "string option"

record card_capability =
  cc_type :: "string option"
  cc_tags :: "string list option"
  cc_description :: "string option"

record card_data =
  cf_metadata :: "card_metadata option"
  cf_capability :: "card_capability option"
  cf_input_contract :: "(string \<times> json) list option"
  cf_output_contract :: "(string \<times> json) list option"
  cf_consumer_intents :: "string list option"
  cf_failure_modes :: "string list option"

definition load_card_from_data :: "card_data \<Rightarrow> RegistryCard" where
  "load_card_from_data data =
     (let metadata = get_default (cf_metadata data)
                       \<lparr>cm_name = None, cm_version = None, cm_domain = None,
                        cm_adr_reference = None\<rparr>;
          capability = get_default (cf_capability data)
                         \<lparr>cc_type = None, cc_tags = None, cc_description = None\<rparr>
      in \<lparr>card_name = get_default (cm_name metadata) '''',
          card_version = get_default (cm_version metadata) ''1.0.0'',
          card_domain = get_default (cm_domain metadata) DOMAIN,
          card_capability_type = get_default (cc_type capability) '''',
          capability_tags = get_default (cc_tags capability) [],
          card_description = get_default (cc_description capability) '''',
          input_contract = get_default (cf_input_contract data) [],
          output_contract = get_default (cf_output_contract data) [],
          consumer_intents = get_default (cf_consumer_intents data) [],
          failure_modes = get_default (cf_failure_modes data) [],
          adr_reference = get_default (cm_adr_reference metadata) ''''\<rparr>)"

text \<open>
  A call on the \<open>AssetRegistryClient\<close>. Every keyword argument of
  \<open>register_capability\<close> is a field of the card, except \<open>registered_at\<close> in the metadata,
  which is the clock reading; so the call is given by the card and that reading.
\<close>

datatype registry_call =
    RegisterCapability RegistryCard datetime
  | UnregisterCapability UUID

text \<open>The client is an external object with a state of its own: what a call does may
  depend on the calls made before it.\<close>

record AssetRegistryClient =
  register_capability :: "registry_call list \<Rightarrow> RegistryCard \<Rightarrow> datetime \<Rightarrow> UUID outcome"
  unregister_capability :: "registry_call list \<Rightarrow> UUID \<Rightarrow> bool outcome"

text \<open>
  The loader object (\<open>registry_client\<close>, \<open>registered_cards\<close>) together with the parts of the
  world its methods touch: \<open>card_files\<close> is \<open>None\<close> when the cards directory does not
  exist, else its \<open>*.json\<close> files in sorted order; \<open>client_calls\<close> is the list of calls made
  on the client so far; \<open>datetime.now\<close> yields \<open>rl_clock\<close> at the number of readings so
  far; \<open>rl_stdout\<close> is the printed text.
\<close>

record RegistryCardLoader =
  registry_client :: AssetRegistryClient
  card_files :: "(string \<times> card_data json_load) list option"
  registered_cards :: "(string \<times> UUID) list"
  client_calls :: "registry_call list"
  rl_clock :: "nat \<Rightarrow> datetime"
  rl_clock_reads :: nat
  rl_stdout :: "string list"

definition RegistryCardLoader_init ::
  "AssetRegistryClient \<Rightarrow> (string \<times> card_data json_load) list option \<Rightarrow> RegistryCardLoader" where
  "RegistryCardLoader_init client files =
     \<lparr>registry_client = client, card_files = files, registered_cards = [],
      client_calls = [], rl_clock = (\<lambda>n. n), rl_clock_reads = 0, rl_stdout = []\<rparr>"

definition rl_print :: "string \<Rightarrow> RegistryCardLoader \<Rightarrow> RegistryCardLoader" where
  "rl_print line l = l\<lparr>rl_stdout := rl_stdout l @ [line]\<rparr>"

text \<open>The loop of \<open>discover_cards\<close> over the sorted files.\<close>

fun discover_loop ::
  "(string \<times> card_data json_load) list \<Rightarrow> RegistryCard list \<Rightarrow> RegistryCardLoader \<Rightarrow>
   RegistryCard list \<times> RegistryCardLoader" where
  "discover_loop [] cards l = (cards, l)"
| "discover_loop ((card_file, Loaded data) # rest) cards l =
     discover_loop rest (cards @ [load_card_from_data data]) l"
| "discover_loop ((card_file, JSONDecodeError e) # rest) cards l =
     discover_loop rest cards
       (rl_print (''Warning: Failed to load card '' @ card_file @ '': '' @ e) l)"

definition discover_cards :: "RegistryCardLoader \<Rightarrow> RegistryCard list \<times> RegistryCardLoader" where
  "discover_cards l =
     (case card_files l of
        None \<Rightarrow> ([], l)
      | Some files \<Rightarrow> discover_loop files [] l)"

text \<open>The loop of \<open>load_all\<close> over the discovered cards.\<close>

fun load_loop ::
  "RegistryCard list \<Rightarrow> (string \<times> UUID) list \<Rightarrow> RegistryCardLoader \<Rightarrow>
   (string \<times> UUID) list \<times> RegistryCardLoader" where
  "load_loop [] results l = (results, l)"
| "load_loop (rc # rest) results l =
     (let now = rl_clock l (rl_clock_reads l);
          l1 = l\<lparr>rl_clock_reads := Suc (rl_clock_reads l),
                 client_calls := client_calls l @ [RegisterCapability rc now]\<rparr>
      in case register_capability (registry_client l) (client_calls l) rc now of
           Returns card_id \<Rightarrow>
             load_loop rest (AList.update (card_name rc) card_id results)
               (l1\<lparr>registered_cards :=
                     AList.update (card_name rc) card_id (registered_cards l1)\<rparr>)
         | Raises e \<Rightarrow>
             load_loop rest results
               (rl_print (''Warning: Failed to register card '' @ card_name rc @ '': '' @ e)
                  l1))"

definition load_all :: "RegistryCardLoader \<Rightarrow> (string \<times> UUID) list \<times> RegistryCardLoader" where
  "load_all l = (case discover_cards l of (cards, l1) \<Rightarrow> load_loop cards [] l1)"

text \<open>
  The loop of \<open>unload_all\<close> over the snapshot \<open>list(self._registered_cards.items())\<close>.
  \<open>del self._registered_cards[card_name]\<close> raises \<open>KeyError\<close> when the key is gone; that
  happens inside the \<open>try\<close>, so it is caught like a failure of the client.
\<close>

fun unload_loop ::
  "(string \<times> UUID) list \<Rightarrow> (string \<times> bool) list \<Rightarrow> RegistryCardLoader \<Rightarrow>
   (string \<times> bool) list \<times> RegistryCardLoader" where
  "unload_loop [] results l = (results, l)"
| "unload_loop ((name, card_id) # rest) results l =
     (let l1 = l\<lparr>client_calls := client_calls l @ [UnregisterCapability card_id]\<rparr>
      in case unregister_capability (registry_client l) (client_calls l) card_id of
           Returns ok \<Rightarrow>
             (if ok
              then
                (if name \<in> fst ` set (registered_cards l1)
                 then unload_loop rest (AList.update name True results)
                        (l1\<lparr>registered_cards := AList.delete name (registered_cards l1)\<rparr>)
                 else unload_loop rest
                        (AList.update name False (AList.update name True results))
                        (rl_print (''Warning: Failed to unregister card '' @ name @ '': '' @
                                   [CHR 0x27] @ name @ [CHR 0x27]) l1))
              else unload_loop rest (AList.update name False results) l1)
         | Raises e \<Rightarrow>
             unload_loop rest (AList.update name False results)
               (rl_print (''Warning: Failed to unregister card '' @ name @ '': '' @ e) l1))"

definition unload_all :: "RegistryCardLoader \<Rightarrow> (string \<times> bool) list \<times> RegistryCardLoader" where
  "unload_all l = unload_loop (registered_cards l) [] l"

definition get_registered_cards :: "RegistryCardLoader \<Rightarrow> (string \<times> UUID) list" where
  "get_registered_cards l = registered_cards l"

definition get_card_count :: "RegistryCardLoader \<Rightarrow> nat" where
  "get_card_count l = length (registered_cards l)"

section \<open>Well-formed registries\<close>

text \<open>
  The invariant of a \<open>SignalRegistry\<close> that is only changed through \<open>add\<close>: each of the
  three dicts has pairwise different keys, and every definition is stored under its own
  name in the dict of its own signal type.
\<close>

definition bucket_ok :: "string \<Rightarrow> (string \<times> SignalDefinition) list \<Rightarrow> bool" where
  "bucket_ok t b \<longleftrightarrow>
     distinct (map fst b) \<and> list_all (\<lambda>(k, d). sd_name d = k \<and> sd_signal_type d = t) b"

definition registry_ok :: "SignalRegistry \<Rightarrow> bool" where
  "registry_ok r \<longleftrightarrow>
     bucket_ok ''metric'' (metrics r) \<and> bucket_ok ''outcome'' (outcomes r) \<and>
     bucket_ok ''advisor'' (advisors r)"

text \<open>How many definitions a list holds under a name.\<close>

definition count_named :: "string \<Rightarrow> SignalDefinition list \<Rightarrow> nat" where
  "count_named n ds = length (filter (\<lambda>d. sd_name d = n) ds)"

text \<open>A \<open>FeedbackSignalRegistry\<close> on which \<open>get_registry\<close> changes nothing any more: it
  has loaded its directory, or there is no directory to load.\<close>

definition settled :: "FeedbackSignalRegistry \<Rightarrow> bool" where
  "settled f \<longleftrightarrow> get_registry f = (fsr_registry f, f)"

text \<open>The condition of a signal as \<open>emit_for_execution_unit\<close> reads it:
  \<open>trigger.get("condition", "always")\<close>.\<close>

definition trigger_condition :: "SignalDefinition \<Rightarrow> string" where
  "trigger_condition d = get_default (condition (emission_trigger d)) ''always''"

text \<open>When a condition qualifies, in the words of the specification: \<open>always\<close> for both
  values of the success flag, \<open>on_success\<close> only when it is true, \<open>on_failure\<close> only when
  it is false.\<close>

definition trigger_qualifies :: "string \<Rightarrow> bool \<Rightarrow> bool" where
  "trigger_qualifies c ok \<longleftrightarrow>
     c = ''always'' \<or> (c = ''on_success'' \<and> ok) \<or> (c = ''on_failure'' \<and> \<not> ok)"

text \<open>The two \<open>continue\<close> tests of the loop of \<open>emit_for_execution_unit\<close>.\<close>

definition trigger_skipped :: "SignalDefinition \<Rightarrow> bool \<Rightarrow> bool" where
  "trigger_skipped d ok \<longleftrightarrow>
     (trigger_condition d = ''on_success'' \<and> \<not> ok) \<or>
     (trigger_condition d = ''on_failure'' \<and> ok)"

text \<open>The name and the type an \<open>EmissionResult\<close> reports, and those of a definition.\<close>

definition result_key :: "EmissionResult \<Rightarrow> string \<times> string" where
  "result_key r = (signal_name r, signal_type r)"

definition signal_key :: "SignalDefinition \<Rightarrow> string \<times> string" where
  "signal_key d = (sd_name d, sd_signal_type d)"

text \<open>
  The answers the client gives during the loop of \<open>unload_all\<close>: \<open>unload_all\<close> calls
  \<open>unregister_capability\<close> once for each entry of the snapshot, in order, and each call
  is made after the ones before it. The list has one answer for each entry.
\<close>

fun unregister_outcomes ::
  "AssetRegistryClient \<Rightarrow> registry_call list \<Rightarrow> (string \<times> UUID) list \<Rightarrow> bool outcome list" where
  "unregister_outcomes client calls [] = []"
| "unregister_outcomes client calls ((n, card_id) # rest) =
     unregister_capability client calls card_id #
     unregister_outcomes client (calls @ [UnregisterCapability card_id]) rest"

text \<open>The entries of the snapshot whose call did not return \<open>True\<close>: it returned
  \<open>False\<close> or raised.\<close>

definition not_unregistered ::
  "(string \<times> UUID) list \<Rightarrow> bool outcome list \<Rightarrow> (string \<times> UUID) list" where
  "not_unregistered snap outs = map fst (filter (\<lambda>(p, out). out \<noteq> Returns True) (zip snap outs))"

section \<open>Concrete inputs\<close>

text \<open>A declarative signal source with the given name, signal type, condition, execution
  units and intended consumers, and no other key.\<close>

definition declared_signal ::
  "string \<Rightarrow> string \<Rightarrow> string \<Rightarrow> string list \<Rightarrow> (string \<times> string) list list \<Rightarrow> signal_data" where
  "declared_signal n ty c units consumers =
     \<lparr>sf_metadata = Some \<lparr>sm_name = Some n, sm_version = None, sm_domain = None\<rparr>,
      sf_signal_type = Some ty, sf_description = None,
      sf_emission_trigger = Some \<lparr>condition = Some c, execution_units = Some units\<rparr>,
      sf_schema = None, sf_intended_consumers = Some consumers\<rparr>"

text \<open>A directory of three signals triggered by the unit \<open>DataProfiler\<close>: a metric emitted
  on success, an outcome emitted on failure, an advisor emitted always.\<close>

definition example_signal_files :: "(string \<times> signal_data json_load) list" where
  "example_signal_files =
     [(''advisor_hint.json'',
         Loaded (declared_signal ''PlacementHint'' ''advisor'' ''always'' [''DataProfiler'']
                   [[(''consumer'', ''scheduler'')]])),
      (''metric_rows.json'',
         Loaded (declared_signal ''RowCount'' ''metric'' ''on_success'' [''DataProfiler''] [])),
      (''outcome_failed.json'',
         Loaded (declared_signal ''ProfileFailed'' ''outcome'' ''on_failure''
                   [''DataProfiler''] []))]"

text \<open>A fresh emitter over that directory, with the given spine.\<close>

definition example_emitter :: "ObservabilitySpine option \<Rightarrow> FeedbackSignalEmitter" where
  "example_emitter sp =
     \<lparr>spine = sp,
      signal_registry = FeedbackSignalRegistry_init (Some example_signal_files),
      emissions = [], spine_calls = [],
      uuid_source = (\<lambda>n. replicate n CHR ''u''), uuids_drawn = 0,
      clock = (\<lambda>n. n), clock_reads = 0\<rparr>"

text \<open>A directory of two signals: an advisor triggered by \<open>DataProfiler\<close> whose first
  consumer entry has no key \<open>consumer\<close>, and a metric triggered by \<open>DataProfiler\<close> and
  \<open>DataWriter\<close> whose condition is none of the three named ones. The emitter over it has
  no spine.\<close>

definition irregular_signal_files :: "(string \<times> signal_data json_load) list" where
  "irregular_signal_files =
     [(''advisor_hint.json'',
         Loaded (declared_signal ''PlacementHint'' ''advisor'' ''always'' [''DataProfiler'']
                   [[(''name'', ''scheduler'')]])),
      (''metric_rows.json'',
         Loaded (declared_signal ''RowCount'' ''metric'' ''never''
                   [''DataProfiler'', ''DataWriter''] []))]"

definition irregular_emitter :: FeedbackSignalEmitter where
  "irregular_emitter =
     \<lparr>spine = None,
      signal_registry = FeedbackSignalRegistry_init (Some irregular_signal_files),
      emissions = [], spine_calls = [],
      uuid_source = (\<lambda>n. replicate n CHR ''u''), uuids_drawn = 0,
      clock = (\<lambda>n. n), clock_reads = 0\<rparr>"

text \<open>A declarative card source with the given name and, when given, capability type;
  both contracts are present and empty.\<close>

definition declared_card :: "string \<Rightarrow> string option \<Rightarrow> card_data" where
  "declared_card n ty =
     \<lparr>cf_metadata = Some \<lparr>cm_name = Some n, cm_version = None, cm_domain = None,
                          cm_adr_reference = None\<rparr>,
      cf_capability = Some \<lparr>cc_type = ty, cc_tags = Some [''stateless''],
                            cc_description = None\<rparr>,
      cf_input_contract = Some [], cf_output_contract = Some [],
      cf_consumer_intents = None, cf_failure_modes = None\<rparr>"

text \<open>A cards directory of two sources: the first has no \<open>capability.type\<close>, the second
  is complete.\<close>

definition example_card_files :: "(string \<times> card_data json_load) list" where
  "example_card_files =
     [(''a_untyped.json'', Loaded (declared_card ''Untyped'' None)),
      (''b_writer.json'', Loaded (declared_card ''DataWriter'' (Some ''data-writing'')))]"

text \<open>A client that registers every card under the card's own name as identifier and
  answers every unregistration with the given outcome.\<close>

definition example_client :: "bool outcome \<Rightarrow> AssetRegistryClient" where
  "example_client unreg =
     \<lparr>register_capability = (\<lambda>calls rc now. Returns (card_name rc)),
      unregister_capability = (\<lambda>calls card_id. unreg)\<rparr>"

text \<open>
  A client with a memory, like the mock of the repository's tests: an unregistration
  returns \<open>True\<close> only for an identifier that an earlier call registered and no earlier
  call unregistered.
\<close>

definition issued :: "UUID \<Rightarrow> registry_call \<Rightarrow> bool" where
  "issued i c = (case c of RegisterCapability rc now \<Rightarrow> card_name rc = i
                          | UnregisterCapability j \<Rightarrow> False)"

definition remembering_client :: AssetRegistryClient where
  "remembering_client =
     \<lparr>register_capability = (\<lambda>calls rc now. Returns (card_name rc)),
      unregister_capability =
        (\<lambda>calls i. Returns (list_ex (issued i) calls \<and> UnregisterCapability i \<notin> set calls))\<rparr>"

text \<open>A client that unregisters the card \<open>DataWriter\<close> and refuses every other one.\<close>

definition selective_client :: AssetRegistryClient where
  "selective_client =
     \<lparr>register_capability = (\<lambda>calls rc now. Returns (card_name rc)),
      unregister_capability = (\<lambda>calls i. Returns (i = ''DataWriter''))\<rparr>"

section \<open>Intent handler: results\<close>

lemma map_of_IngestData:
  "map_of INTENT_TO_EXECUTION_UNITS ''IngestData'' = Some [
      \<lparr>eu_name = ''DataExtractor'', eu_capability_type = ''data-extraction'',
       eu_input_mapping = [
         (''source_connection_ref'', ''extraction_input.source_connection_ref''),
         (''source_query_or_path'', ''extraction_input.source_query_or_path'')]\<rparr>,
      \<lparr>eu_name = ''DataWriter'', eu_capability_type = ''data-writing'',
       eu_input_mapping = [
         (''staging_ref'', ''write_input.staging_ref''),
         (''target_dataset_ref'', ''write_input.target_dataset_ref'')]\<rparr>,
      \<lparr>eu_name = ''LineageEdgeWriter'', eu_capability_type = ''lineage-recording'',
       eu_input_mapping = [
         (''source_asset_ref'', ''edge_input.source_asset_ref''),
         (''target_asset_ref'', ''edge_input.target_asset_ref'')]\<rparr>]"
  by (simp add: INTENT_TO_EXECUTION_UNITS_def)

lemma IngestData_supported: "is_supported_intent ''IngestData''"
  by (simp add: is_supported_intent_def SUPPORTED_INTENTS_def INTENT_TO_EXECUTION_UNITS_def)

lemma handle_intent_unsupported:
  "\<not> is_supported_intent intent_type \<Longrightarrow>
   handle_intent intent_engine intent_id intent_type intent_params =
     intent_failure (''Unsupported intent type: '' @ intent_type)"
  by (simp add: handle_intent_def)

lemma handle_IngestData_returns:
  "intent_engine = None \<or> (\<exists>engine b. intent_engine = Some engine \<and>
       engine intent_id (build_eu_specs (the (get_execution_units_for_intent ''IngestData''))) = Returns b) \<Longrightarrow>
   handle_intent intent_engine intent_id ''IngestData'' intent_params =
     intent_success intent_id ''IngestData''
       (build_eu_specs (the (get_execution_units_for_intent ''IngestData'')))"
  using IngestData_supported
  by (auto simp: handle_intent_def get_execution_units_for_intent_def map_of_IngestData)

text \<open>
  C4 (as stated, refuted at a concrete input). The claim says that the error field of the
  failure returned for an unsupported intent type is the string \<open>UNSUPPORTED_INTENT\<close>.
  For the intent type \<open>NoSuchIntent\<close>, which is not a key of the static mapping,
  \<open>handle_intent\<close> returns a failure whose error field is a different string.
\<close>

theorem C4_error_code_counterexample:
  "''NoSuchIntent'' \<notin> set (map fst INTENT_TO_EXECUTION_UNITS) \<and>
   ir_error (handle_intent None ''0000'' ''NoSuchIntent'' []) \<noteq> Some ''UNSUPPORTED_INTENT''"
  by (simp add: handle_intent_def is_supported_intent_def SUPPORTED_INTENTS_def
      INTENT_TO_EXECUTION_UNITS_def intent_failure_def)

text \<open>
  C4 (amended). For every intent type that is not a key of the static
  intent-to-execution-unit mapping, whatever the engine, the intent id and the parameters,
  \<open>handle_intent\<close> returns (it is a total function: nothing is raised) a structured failure:
  the success field is false, the error field is the text \<open>Unsupported intent type: \<close>
  followed by the intent type, the domain is \<open>data-fabric\<close>, and no other key is present.
\<close>

theorem C4_unsupported_intent_failure:
  assumes "intent_type \<notin> set (map fst INTENT_TO_EXECUTION_UNITS)"
  shows "handle_intent intent_engine intent_id intent_type intent_params =
           \<lparr>ir_success = False,
            ir_error = Some (''Unsupported intent type: '' @ intent_type),
            ir_domain = ''data-fabric'', ir_intent_id = None, ir_intent_type = None,
            ir_execution_units = None, ir_unit_count = None\<rparr>"
proof -
  from assms have "\<not> is_supported_intent intent_type"
    by (simp add: is_supported_intent_def SUPPORTED_INTENTS_def)
  then show ?thesis
    by (simp add: handle_intent_unsupported intent_failure_def DOMAIN_def)
qed

theorem C4_unsupported_intent_failure_witness:
  "''NoSuchIntent'' \<notin> set (map fst INTENT_TO_EXECUTION_UNITS) \<and>
   handle_intent (Some (\<lambda>i u. Returns True)) ''0000'' ''NoSuchIntent'' [] =
     \<lparr>ir_success = False,
      ir_error = Some ''Unsupported intent type: NoSuchIntent'',
      ir_domain = ''data-fabric'', ir_intent_id = None, ir_intent_type = None,
      ir_execution_units = None, ir_unit_count = None\<rparr>"
proof -
  have h: "''NoSuchIntent'' \<notin> set (map fst INTENT_TO_EXECUTION_UNITS)"
    by (simp add: INTENT_TO_EXECUTION_UNITS_def)
  show ?thesis
    using h C4_unsupported_intent_failure [OF h, of "Some (\<lambda>i u. Returns True)" "''0000''" "[]"]
    by simp
qed

text \<open>
  C6 (the code at the failing input). The submission collaborator's
  \<open>decompose_intent\<close> returns a boolean. An engine that answers \<open>False\<close> (the
  notification was not accepted) without raising makes \<open>handle_intent\<close> return the
  locally computed decomposition with the success field true and no error: the returned
  boolean is discarded, only an exception turns the result into a failure.
\<close>

theorem C6_rejected_notification_reported_as_success:
  "ir_success (handle_intent (Some (\<lambda>i u. Returns False)) ''0000'' ''IngestData'' []) = True \<and>
   ir_error (handle_intent (Some (\<lambda>i u. Returns False)) ''0000'' ''IngestData'' []) = None \<and>
   ir_unit_count (handle_intent (Some (\<lambda>i u. Returns False)) ''0000'' ''IngestData'' []) = Some 3"
  using IngestData_supported
  by (simp add: handle_intent_def intent_success_def build_eu_specs_def
      get_execution_units_for_intent_def map_of_IngestData)

text \<open>
  C7. With no submission collaborator, or with one whose \<open>decompose_intent\<close> returns
  (does not raise) on the submitted specs, \<open>handle_intent\<close> on the intent type
  \<open>IngestData\<close> returns success true, and the names of its execution units are exactly
  the sequence DataExtractor, DataWriter, LineageEdgeWriter (three units, in that order).
\<close>

theorem C7_IngestData_decomposition:
  assumes "intent_engine = None \<or> (\<exists>engine b. intent_engine = Some engine \<and>
       engine intent_id (build_eu_specs (the (get_execution_units_for_intent ''IngestData''))) = Returns b)"
  shows "ir_success (handle_intent intent_engine intent_id ''IngestData'' intent_params) = True \<and>
         map_option (map spec_name)
           (ir_execution_units (handle_intent intent_engine intent_id ''IngestData'' intent_params)) =
           Some [''DataExtractor'', ''DataWriter'', ''LineageEdgeWriter''] \<and>
         ir_unit_count (handle_intent intent_engine intent_id ''IngestData'' intent_params) = Some 3"
  by (simp add: handle_IngestData_returns [OF assms] intent_success_def build_eu_specs_def
      get_execution_units_for_intent_def map_of_IngestData)

theorem C7_IngestData_decomposition_witness:
  "ir_success (handle_intent (Some (\<lambda>i u. Returns True)) ''0000'' ''IngestData'' []) = True \<and>
   map_option (map spec_name)
     (ir_execution_units (handle_intent (Some (\<lambda>i u. Returns True)) ''0000'' ''IngestData'' [])) =
     Some [''DataExtractor'', ''DataWriter'', ''LineageEdgeWriter''] \<and>
   ir_unit_count (handle_intent (Some (\<lambda>i u. Returns True)) ''0000'' ''IngestData'' []) = Some 3"
proof -
  have h: "Some (\<lambda>i u. Returns True) = (None :: IntentEngine option) \<or>
      (\<exists>engine b. Some (\<lambda>i u. Returns True) = Some engine \<and>
         engine ''0000'' (build_eu_specs (the (get_execution_units_for_intent ''IngestData''))) =
           Returns b)"
    by blast
  show ?thesis
    by (rule C7_IngestData_decomposition [OF h])
qed

section \<open>Capability provider: results\<close>

lemma EXECUTION_UNIT_CAPABILITIES_names:
  "map fst EXECUTION_UNIT_CAPABILITIES = [''DataAssetRegistrar'', ''ConnectionProbe'', ''SchemaIntrospector'', ''DataExtractor'', ''DataWriter'', ''TransformExecutor'', ''DataJoiner'', ''AggregationComputer'', ''FeatureComputer'', ''FeatureStoreWriter'', ''FeatureRetriever'', ''DataProfiler'', ''SchemaValidator'', ''DataCommitter'', ''BranchCreator'', ''MergeComputer'', ''DataReplicator'', ''LocalitySignalGenerator'', ''LabelTaskCreator'', ''LabelRecorder'', ''LineageEdgeWriter'', ''QualityGateEvaluator'']"
  by (simp add: EXECUTION_UNIT_CAPABILITIES_def)

lemma fold_update_True_fresh:
  "distinct ns \<Longrightarrow> set ns \<inter> fst ` set d = {} \<Longrightarrow>
   fold (\<lambda>name d. AList.update name True d) ns d = d @ map (\<lambda>n. (n, True)) ns"
proof (induction ns arbitrary: d)
  case Nil
  then show ?case by simp
next
  case (Cons n ns)
  have fresh: "n \<notin> fst ` set d" using Cons.prems(2) by auto
  have upd: "AList.update n True d = d @ [(n, True)]"
    using fresh by (induction d) auto
  have "set ns \<inter> fst ` set (d @ [(n, True)]) = {}"
    using Cons.prems by auto
  with Cons.IH [of "d @ [(n, True)]"] Cons.prems(1) upd show ?case by simp
qed

text \<open>
  C10. A provider constructed without an MCOP scheduler answers
  \<open>provide_all_capabilities\<close> with the map that sends each of the 22 execution-unit names
  of the table to \<open>True\<close>, and the call leaves the provider as it was: afterwards
  \<open>get_provided_capabilities\<close> is the empty set, as before the call.
\<close>

theorem C10_mock_success_provides_nothing:
  "fst (provide_all_capabilities (DataFabricCapabilityProvider_init None)) =
     map (\<lambda>n. (n, True)) [''DataAssetRegistrar'', ''ConnectionProbe'', ''SchemaIntrospector'', ''DataExtractor'', ''DataWriter'', ''TransformExecutor'', ''DataJoiner'', ''AggregationComputer'', ''FeatureComputer'', ''FeatureStoreWriter'', ''FeatureRetriever'', ''DataProfiler'', ''SchemaValidator'', ''DataCommitter'', ''BranchCreator'', ''MergeComputer'', ''DataReplicator'', ''LocalitySignalGenerator'', ''LabelTaskCreator'', ''LabelRecorder'', ''LineageEdgeWriter'', ''QualityGateEvaluator''] \<and>
   length (fst (provide_all_capabilities (DataFabricCapabilityProvider_init None))) = 22 \<and>
   get_capability_count = 22 \<and>
   snd (provide_all_capabilities (DataFabricCapabilityProvider_init None)) =
     DataFabricCapabilityProvider_init None \<and>
   get_provided_capabilities (DataFabricCapabilityProvider_init None) = {} \<and>
   get_provided_capabilities
     (snd (provide_all_capabilities (DataFabricCapabilityProvider_init None))) = {}"
proof -
  have d: "distinct (map fst EXECUTION_UNIT_CAPABILITIES)"
    by (simp add: EXECUTION_UNIT_CAPABILITIES_names)
  have "fold (\<lambda>name d. AList.update name True d) (map fst EXECUTION_UNIT_CAPABILITIES) [] =
        [] @ map (\<lambda>n. (n, True)) (map fst EXECUTION_UNIT_CAPABILITIES)"
    by (rule fold_update_True_fresh [OF d]) simp
  moreover have "length (map fst EXECUTION_UNIT_CAPABILITIES) = 22"
    by (simp only: EXECUTION_UNIT_CAPABILITIES_names) simp
  then have "length EXECUTION_UNIT_CAPABILITIES = 22"
    by simp
  ultimately show ?thesis
    by (simp add: provide_all_capabilities_def DataFabricCapabilityProvider_init_def
        get_provided_capabilities_def get_capability_count_def
        EXECUTION_UNIT_CAPABILITIES_names)
qed

section \<open>Signal registry: results\<close>

lemma bucket_ok_Nil: "bucket_ok t []"
  by (simp add: bucket_ok_def)

lemma registry_ok_init: "registry_ok SignalRegistry_init"
  by (simp add: registry_ok_def SignalRegistry_init_def bucket_ok_Nil)

lemma list_all_update:
  "list_all P b \<Longrightarrow> P (k, v) \<Longrightarrow> list_all P (AList.update k v b)"
  by (induction b) auto

lemma bucket_ok_update:
  "bucket_ok t b \<Longrightarrow> sd_signal_type s = t \<Longrightarrow> bucket_ok t (AList.update (sd_name s) s b)"
  by (simp add: bucket_ok_def distinct_update list_all_update)

lemma registry_ok_add: "registry_ok r \<Longrightarrow> registry_ok (add r s)"
  by (simp add: registry_ok_def add_def bucket_ok_update)

lemma count_named_bucket:
  "bucket_ok t b \<Longrightarrow>
   count_named n (map snd b) = (if n \<in> fst ` set b then 1 else 0)"
proof (induction b)
  case Nil
  then show ?case by (simp add: count_named_def)
next
  case (Cons p b)
  obtain k d where p: "p = (k, d)" by (cases p)
  from Cons.prems p have nm: "sd_name d = k" and fresh: "k \<notin> fst ` set b"
    and ok: "bucket_ok t b"
    by (auto simp: bucket_ok_def)
  from Cons.IH [OF ok] have ih: "count_named n (map snd b) = (if n \<in> fst ` set b then 1 else 0)" .
  show ?case
    using ih nm fresh p by (auto simp: count_named_def filter_map o_def)
qed

lemma count_named_after_update:
  assumes "bucket_ok t b" "sd_signal_type s = t"
  shows "count_named (sd_name s) (map snd (AList.update (sd_name s) s b)) = 1"
proof -
  have "bucket_ok t (AList.update (sd_name s) s b)"
    using assms by (rule bucket_ok_update)
  from count_named_bucket [OF this, of "sd_name s"] show ?thesis
    by (simp add: dom_update)
qed

lemma map_of_update_same: "map_of (AList.update k v b) k = Some v"
  by (simp add: update_conv')

text \<open>
  C8 (amended). At every point of a \<open>SignalRegistry\<close>'s lifetime signal names are unique
  within each of the three categories (the invariant \<open>registry_ok\<close> holds of the empty
  registry and is kept by \<open>add\<close>); across categories one name can be held once per
  category. Adding a definition whose signal type is metric, outcome or advisor overwrites
  the entry of that name in the category of its type (last-loaded-wins within the
  category): afterwards that category holds exactly one definition under the name, the new
  one. \<open>get(name)\<close> returns the new definition unless a category searched earlier
  (metrics before outcomes before advisors) holds the name; then it returns that
  category's definition.
\<close>

theorem C8_add_overwrites_within_category:
  assumes "registry_ok r"
    and "sd_signal_type s = ''metric'' \<or> sd_signal_type s = ''outcome'' \<or>
         sd_signal_type s = ''advisor''"
  shows "registry_ok (add r s) \<and>
         count_named (sd_name s) (get_by_type (add r s) (sd_signal_type s)) = 1 \<and>
         s \<in> set (get_by_type (add r s) (sd_signal_type s)) \<and>
         get (add r s) (sd_name s) =
           (if sd_signal_type s = ''metric'' then Some s
            else if sd_signal_type s = ''outcome'' then
              (case map_of (metrics r) (sd_name s) of Some m \<Rightarrow> Some m | None \<Rightarrow> Some s)
            else
              (case map_of (metrics r) (sd_name s) of
                 Some m \<Rightarrow> Some m
               | None \<Rightarrow>
                   (case map_of (outcomes r) (sd_name s) of
                      Some m \<Rightarrow> Some m
                    | None \<Rightarrow> Some s)))"
proof -
  have ok: "registry_ok (add r s)" using assms(1) by (rule registry_ok_add)
  have bm: "bucket_ok ''metric'' (metrics r)" and bo: "bucket_ok ''outcome'' (outcomes r)"
    and ba: "bucket_ok ''advisor'' (advisors r)"
    using assms(1) by (simp_all add: registry_ok_def)
  have mem: "\<And>b. (sd_name s, s) \<in> set (AList.update (sd_name s) s b)"
    by (rule map_of_SomeD) (rule map_of_update_same)
  have mem': "\<And>b. s \<in> snd ` set (AList.update (sd_name s) s b)"
    using mem by force
  from assms(2) show ?thesis
  proof (elim disjE)
    assume t: "sd_signal_type s = ''metric''"
    show ?thesis
      using ok t count_named_after_update [OF bm t] mem'
      by (simp add: add_def get_by_type_def get_def map_of_update_same)
  next
    assume t: "sd_signal_type s = ''outcome''"
    show ?thesis
      using ok t count_named_after_update [OF bo t] mem'
      by (simp add: add_def get_by_type_def get_def map_of_update_same split: option.splits)
  next
    assume t: "sd_signal_type s = ''advisor''"
    show ?thesis
      using ok t count_named_after_update [OF ba t] mem'
      by (simp add: add_def get_by_type_def get_def map_of_update_same split: option.splits)
  qed
qed

theorem C8_add_overwrites_within_category_witness:
  "registry_ok (add SignalRegistry_init (load_signal_from_data (declared_signal ''RowCount'' ''metric'' ''always'' [] []))) \<and>
   count_named ''RowCount''
     (get_by_type (add (add SignalRegistry_init (load_signal_from_data (declared_signal ''RowCount'' ''metric'' ''always'' [] []))) (load_signal_from_data (declared_signal ''RowCount'' ''metric'' ''on_success'' [''DataProfiler''] []))) ''metric'') = 1 \<and>
   get (add (add SignalRegistry_init (load_signal_from_data (declared_signal ''RowCount'' ''metric'' ''always'' [] []))) (load_signal_from_data (declared_signal ''RowCount'' ''metric'' ''on_success'' [''DataProfiler''] []))) ''RowCount'' = Some (load_signal_from_data (declared_signal ''RowCount'' ''metric'' ''on_success'' [''DataProfiler''] []))"
proof -
  have h1: "registry_ok (add SignalRegistry_init (load_signal_from_data (declared_signal ''RowCount'' ''metric'' ''always'' [] [])))"
    by (rule registry_ok_add) (rule registry_ok_init)
  have h2: "sd_signal_type (load_signal_from_data (declared_signal ''RowCount'' ''metric'' ''on_success'' [''DataProfiler''] [])) = ''metric'' \<or> sd_signal_type (load_signal_from_data (declared_signal ''RowCount'' ''metric'' ''on_success'' [''DataProfiler''] [])) = ''outcome'' \<or>
      sd_signal_type (load_signal_from_data (declared_signal ''RowCount'' ''metric'' ''on_success'' [''DataProfiler''] [])) = ''advisor''"
    by (simp add: load_signal_from_data_def declared_signal_def get_default_def)
  have ty: "sd_signal_type (load_signal_from_data (declared_signal ''RowCount'' ''metric'' ''on_success'' [''DataProfiler''] [])) = ''metric''"
    by (simp add: load_signal_from_data_def declared_signal_def get_default_def)
  have nm: "sd_name (load_signal_from_data (declared_signal ''RowCount'' ''metric'' ''on_success'' [''DataProfiler''] [])) = ''RowCount''"
    by (simp add: load_signal_from_data_def declared_signal_def get_default_def)
  show ?thesis
    using h1 C8_add_overwrites_within_category [OF h1 h2] ty nm by simp
qed

text \<open>
  C8 (as stated, refuted at a concrete input). Starting from the empty registry, add a
  metric named \<open>RowCount\<close> and then an outcome of the same name. The claim says that
  the second \<open>add\<close> overwrites the first, so that \<open>get\<close> returns the outcome and one
  definition is held under the name. The code keeps both: \<open>get\<close> still returns the
  metric, and \<open>get_all\<close> holds two definitions named \<open>RowCount\<close>.
\<close>

theorem C8_cross_category_duplicate_counterexample:
  "get (add (add SignalRegistry_init (load_signal_from_data (declared_signal ''RowCount'' ''metric'' ''always'' [] []))) (load_signal_from_data (declared_signal ''RowCount'' ''outcome'' ''always'' [] []))) ''RowCount'' = Some (load_signal_from_data (declared_signal ''RowCount'' ''metric'' ''always'' [] [])) \<and>
   get (add (add SignalRegistry_init (load_signal_from_data (declared_signal ''RowCount'' ''metric'' ''always'' [] []))) (load_signal_from_data (declared_signal ''RowCount'' ''outcome'' ''always'' [] []))) ''RowCount'' \<noteq> Some (load_signal_from_data (declared_signal ''RowCount'' ''outcome'' ''always'' [] [])) \<and>
   count_named ''RowCount'' (get_all (add (add SignalRegistry_init (load_signal_from_data (declared_signal ''RowCount'' ''metric'' ''always'' [] []))) (load_signal_from_data (declared_signal ''RowCount'' ''outcome'' ''always'' [] [])))) = 2"
  by (simp add: add_def get_def get_all_def count_named_def SignalRegistry_init_def
      load_signal_from_data_def declared_signal_def get_default_def)

section \<open>Signal emitter: results\<close>

lemma load_files_loaded [simp]: "loaded (load_files files f) = loaded f"
  by (induction files f rule: load_files.induct) simp_all

lemma load_files_signal_files [simp]: "signal_files (load_files files f) = signal_files f"
  by (induction files f rule: load_files.induct) simp_all

lemma registry_ok_load_files:
  "registry_ok (fsr_registry f) \<Longrightarrow> registry_ok (fsr_registry (load_files files f))"
  by (induction files f rule: load_files.induct) (simp_all add: registry_ok_add)

lemma settled_get_registry: "settled (snd (get_registry f))"
  by (simp add: settled_def get_registry_def load_def Let_def split: option.splits)

lemma fst_get_registry: "fst (get_registry f) = fsr_registry (snd (get_registry f))"
  by (simp add: get_registry_def Let_def)

lemma registry_ok_get_registry:
  "registry_ok (fsr_registry f) \<Longrightarrow> registry_ok (fst (get_registry f))"
  by (simp add: get_registry_def load_def Let_def registry_ok_load_files split: option.splits)

lemma get_signal_settled:
  "settled f \<Longrightarrow> get_signal f n = (get (fsr_registry f) n, f)"
  by (simp add: settled_def get_signal_def)

lemmas emit_defs =
  uuid4_def datetime_now_def call_spine_def record_emission_def Let_def

lemma emit_metric_key:
  "result_key (fst (emit_metric e n i t v)) = (n, ''metric'')"
  by (simp add: emit_metric_def emit_defs result_key_def
      split: prod.splits option.splits outcome.splits)

lemma emit_outcome_key:
  "result_key (fst (emit_outcome e n i t v)) = (n, ''outcome'')"
  by (simp add: emit_outcome_def emit_defs result_key_def
      split: prod.splits option.splits outcome.splits)

lemma emit_advisor_key:
  "result_key (fst (emit_advisor e n i t v c)) = (n, ''advisor'')"
  by (simp add: emit_advisor_def emit_defs result_key_def
      split: prod.splits option.splits outcome.splits)

lemma emit_metric_registry:
  "signal_registry (snd (emit_metric e n i t v)) = snd (get_registry (signal_registry e))"
  by (simp add: emit_metric_def emit_defs get_signal_def
      split: prod.splits option.splits outcome.splits)

lemma emit_outcome_registry:
  "signal_registry (snd (emit_outcome e n i t v)) = snd (get_registry (signal_registry e))"
  by (simp add: emit_outcome_def emit_defs get_signal_def
      split: prod.splits option.splits outcome.splits)

lemma emit_advisor_registry:
  "signal_registry (snd (emit_advisor e n i t v c)) = snd (get_registry (signal_registry e))"
  by (simp add: emit_advisor_def emit_defs get_signal_def
      split: prod.splits option.splits outcome.splits)

lemma settled_after_emit_metric:
  "settled (signal_registry e) \<Longrightarrow> signal_registry (snd (emit_metric e n i t v)) = signal_registry e"
  by (simp add: emit_metric_registry settled_def)

lemma settled_after_emit_outcome:
  "settled (signal_registry e) \<Longrightarrow> signal_registry (snd (emit_outcome e n i t v)) = signal_registry e"
  by (simp add: emit_outcome_registry settled_def)

lemma settled_after_emit_advisor:
  "settled (signal_registry e) \<Longrightarrow>
   signal_registry (snd (emit_advisor e n i t v c)) = signal_registry e"
  by (simp add: emit_advisor_registry settled_def)

lemma emit_signals_skip:
  "trigger_skipped d ok \<Longrightarrow>
   emit_signals e i t v ok (d # sigs) results = emit_signals e i t v ok sigs results"
  by (auto simp: trigger_skipped_def trigger_condition_def Let_def)

lemma emit_signals_metric:
  "\<not> trigger_skipped d ok \<Longrightarrow> sd_signal_type d = ''metric'' \<Longrightarrow>
   emit_metric e (sd_name d) i t v = (r, e1) \<Longrightarrow>
   emit_signals e i t v ok (d # sigs) results = emit_signals e1 i t v ok sigs (results @ [r])"
  by (auto simp: trigger_skipped_def trigger_condition_def Let_def)

lemma emit_signals_outcome:
  "\<not> trigger_skipped d ok \<Longrightarrow> sd_signal_type d = ''outcome'' \<Longrightarrow>
   emit_outcome e (sd_name d) i t v = (r, e1) \<Longrightarrow>
   emit_signals e i t v ok (d # sigs) results = emit_signals e1 i t v ok sigs (results @ [r])"
  by (auto simp: trigger_skipped_def trigger_condition_def Let_def)

lemma emit_signals_advisor:
  "\<not> trigger_skipped d ok \<Longrightarrow> sd_signal_type d = ''advisor'' \<Longrightarrow>
   first_consumer (intended_consumers d) = Inr c \<Longrightarrow>
   emit_advisor e (sd_name d) i t v c = (r, e1) \<Longrightarrow>
   emit_signals e i t v ok (d # sigs) results = emit_signals e1 i t v ok sigs (results @ [r])"
  by (auto simp: trigger_skipped_def trigger_condition_def Let_def)

lemma emit_signals_results:
  assumes "settled (signal_registry e)"
    and "\<forall>d\<in>set sigs. sd_signal_type d = ''metric'' \<or> sd_signal_type d = ''outcome'' \<or>
           sd_signal_type d = ''advisor''"
    and "\<forall>d\<in>set sigs. sd_signal_type d = ''advisor'' \<and> \<not> trigger_skipped d ok \<longrightarrow>
           (\<exists>c. first_consumer (intended_consumers d) = Inr c)"
  shows "\<exists>rs e'. emit_signals e i t v ok sigs results = Inr (results @ rs, e') \<and>
           map result_key rs = map signal_key (filter (\<lambda>d. \<not> trigger_skipped d ok) sigs)"
  using assms
proof (induction sigs arbitrary: e results)
  case Nil
  then show ?case by simp
next
  case (Cons d sigs)
  have types: "\<forall>d\<in>set sigs. sd_signal_type d = ''metric'' \<or> sd_signal_type d = ''outcome'' \<or>
           sd_signal_type d = ''advisor''"
    and cons: "\<forall>d\<in>set sigs. sd_signal_type d = ''advisor'' \<and> \<not> trigger_skipped d ok \<longrightarrow>
           (\<exists>c. first_consumer (intended_consumers d) = Inr c)"
    using Cons.prems by simp_all
  note IH = Cons.IH [OF _ types cons]
  show ?case
  proof (cases "trigger_skipped d ok")
    case True
    from IH [OF Cons.prems(1), of results] obtain rs e' where
      "emit_signals e i t v ok sigs results = Inr (results @ rs, e')"
      "map result_key rs = map signal_key (filter (\<lambda>d. \<not> trigger_skipped d ok) sigs)"
      by blast
    with True show ?thesis
      by (simp del: emit_signals.simps add: emit_signals_skip)
  next
    case False
    from Cons.prems(2) consider
      (metric) "sd_signal_type d = ''metric''" |
      (outcome) "sd_signal_type d = ''outcome''" |
      (advisor) "sd_signal_type d = ''advisor''"
      by auto
    then show ?thesis
    proof cases
      case metric
      obtain r e1 where em: "emit_metric e (sd_name d) i t v = (r, e1)"
        by (cases "emit_metric e (sd_name d) i t v")
      have key: "result_key r = signal_key d"
        using emit_metric_key [of e "sd_name d" i t v] em metric by (simp add: signal_key_def)
      have "signal_registry e1 = signal_registry e"
        using settled_after_emit_metric [OF Cons.prems(1), of "sd_name d" i t v] em by simp
      then have st: "settled (signal_registry e1)" using Cons.prems(1) by simp
      from IH [OF st, of "results @ [r]"] obtain rs e' where
        "emit_signals e1 i t v ok sigs (results @ [r]) = Inr ((results @ [r]) @ rs, e')"
        "map result_key rs = map signal_key (filter (\<lambda>d. \<not> trigger_skipped d ok) sigs)"
        by blast
      then have "emit_signals e i t v ok (d # sigs) results = Inr (results @ (r # rs), e') \<and>
          map result_key (r # rs) =
            map signal_key (filter (\<lambda>d. \<not> trigger_skipped d ok) (d # sigs))"
        using key False by (simp del: emit_signals.simps add: emit_signals_metric [OF False metric em])
      then show ?thesis by blast
    next
      case outcome
      obtain r e1 where em: "emit_outcome e (sd_name d) i t v = (r, e1)"
        by (cases "emit_outcome e (sd_name d) i t v")
      have key: "result_key r = signal_key d"
        using emit_outcome_key [of e "sd_name d" i t v] em outcome by (simp add: signal_key_def)
      have "signal_registry e1 = signal_registry e"
        using settled_after_emit_outcome [OF Cons.prems(1), of "sd_name d" i t v] em by simp
      then have st: "settled (signal_registry e1)" using Cons.prems(1) by simp
      from IH [OF st, of "results @ [r]"] obtain rs e' where
        "emit_signals e1 i t v ok sigs (results @ [r]) = Inr ((results @ [r]) @ rs, e')"
        "map result_key rs = map signal_key (filter (\<lambda>d. \<not> trigger_skipped d ok) sigs)"
        by blast
      then have "emit_signals e i t v ok (d # sigs) results = Inr (results @ (r # rs), e') \<and>
          map result_key (r # rs) =
            map signal_key (filter (\<lambda>d. \<not> trigger_skipped d ok) (d # sigs))"
        using key False by (simp del: emit_signals.simps add: emit_signals_outcome [OF False outcome em])
      then show ?thesis by blast
    next
      case advisor
      from Cons.prems(3) advisor False obtain c where
        fc: "first_consumer (intended_consumers d) = Inr c" by auto
      obtain r e1 where em: "emit_advisor e (sd_name d) i t v c = (r, e1)"
        by (cases "emit_advisor e (sd_name d) i t v c")
      have key: "result_key r = signal_key d"
        using emit_advisor_key [of e "sd_name d" i t v c] em advisor by (simp add: signal_key_def)
      have "signal_registry e1 = signal_registry e"
        using settled_after_emit_advisor [OF Cons.prems(1), of "sd_name d" i t v c] em by simp
      then have st: "settled (signal_registry e1)" using Cons.prems(1) by simp
      from IH [OF st, of "results @ [r]"] obtain rs e' where
        "emit_signals e1 i t v ok sigs (results @ [r]) = Inr ((results @ [r]) @ rs, e')"
        "map result_key rs = map signal_key (filter (\<lambda>d. \<not> trigger_skipped d ok) sigs)"
        by blast
      then have "emit_signals e i t v ok (d # sigs) results = Inr (results @ (r # rs), e') \<and>
          map result_key (r # rs) =
            map signal_key (filter (\<lambda>d. \<not> trigger_skipped d ok) (d # sigs))"
        using key False by (simp del: emit_signals.simps add: emit_signals_advisor [OF False advisor fc em])
      then show ?thesis by blast
    qed
  qed
qed

lemma bucket_ok_entry:
  "bucket_ok ty b \<Longrightarrow> (k, d) \<in> set b \<Longrightarrow> sd_name d = k \<and> sd_signal_type d = ty"
  by (auto simp: bucket_ok_def list_all_iff)

lemma bucket_ok_unique:
  assumes "bucket_ok ty b" "d \<in> snd ` set b" "d' \<in> snd ` set b" "sd_name d = sd_name d'"
  shows "d = d'"
proof -
  from assms(2) obtain k where k: "(k, d) \<in> set b" by force
  from assms(3) obtain k' where k': "(k', d') \<in> set b" by force
  from bucket_ok_entry [OF assms(1) k] bucket_ok_entry [OF assms(1) k'] assms(4)
  have "k = k'" by simp
  moreover from assms(1) have "distinct (map fst b)" by (simp add: bucket_ok_def)
  ultimately show ?thesis using k k' by (metis eq_key_imp_eq_value)
qed

lemma get_all_cases:
  assumes "registry_ok r" "d \<in> set (get_all r)"
  shows "(sd_signal_type d = ''metric'' \<and> d \<in> snd ` set (metrics r)) \<or>
         (sd_signal_type d = ''outcome'' \<and> d \<in> snd ` set (outcomes r)) \<or>
         (sd_signal_type d = ''advisor'' \<and> d \<in> snd ` set (advisors r))"
proof -
  from assms(2) consider "d \<in> snd ` set (metrics r)" | "d \<in> snd ` set (outcomes r)"
    | "d \<in> snd ` set (advisors r)"
    by (auto simp: get_all_def)
  then show ?thesis
  proof cases
    case 1
    then obtain k where "(k, d) \<in> set (metrics r)" by force
    with assms(1) have "sd_signal_type d = ''metric''"
      using bucket_ok_entry by (simp add: registry_ok_def) blast
    with 1 show ?thesis by simp
  next
    case 2
    then obtain k where "(k, d) \<in> set (outcomes r)" by force
    with assms(1) have "sd_signal_type d = ''outcome''"
      using bucket_ok_entry by (simp add: registry_ok_def) blast
    with 2 show ?thesis by simp
  next
    case 3
    then obtain k where "(k, d) \<in> set (advisors r)" by force
    with assms(1) have "sd_signal_type d = ''advisor''"
      using bucket_ok_entry by (simp add: registry_ok_def) blast
    with 3 show ?thesis by simp
  qed
qed

lemma signal_key_unique:
  assumes ok: "registry_ok r" and d: "d \<in> set (get_all r)" and d': "d' \<in> set (get_all r)"
    and key: "signal_key d = signal_key d'"
  shows "d = d'"
proof -
  from key have nm: "sd_name d = sd_name d'" and ty: "sd_signal_type d = sd_signal_type d'"
    by (simp_all add: signal_key_def)
  from ok have bm: "bucket_ok ''metric'' (metrics r)" and bo: "bucket_ok ''outcome'' (outcomes r)"
    and ba: "bucket_ok ''advisor'' (advisors r)"
    by (simp_all add: registry_ok_def)
  from get_all_cases [OF ok d] get_all_cases [OF ok d'] ty
  consider "d \<in> snd ` set (metrics r) \<and> d' \<in> snd ` set (metrics r)"
    | "d \<in> snd ` set (outcomes r) \<and> d' \<in> snd ` set (outcomes r)"
    | "d \<in> snd ` set (advisors r) \<and> d' \<in> snd ` set (advisors r)"
    by auto
  then show ?thesis
  proof cases
    case 1 then show ?thesis using bucket_ok_unique [OF bm _ _ nm] by blast
  next
    case 2 then show ?thesis using bucket_ok_unique [OF bo _ _ nm] by blast
  next
    case 3 then show ?thesis using bucket_ok_unique [OF ba _ _ nm] by blast
  qed
qed

lemma qualifies_iff_not_skipped:
  "trigger_condition d = ''always'' \<or> trigger_condition d = ''on_success'' \<or>
   trigger_condition d = ''on_failure'' \<Longrightarrow>
   trigger_qualifies (trigger_condition d) ok \<longleftrightarrow> \<not> trigger_skipped d ok"
  by (auto simp: trigger_qualifies_def trigger_skipped_def)

text \<open>
  C5 (amended). Let the registry be one that \<open>add\<close> and \<open>load\<close> build, and let every
  advisor signal of the unit that the condition tests do not skip name a consumer in its
  first \<open>intended_consumers\<close> entry, or have no entry. Then \<open>emit_for_execution_unit\<close>
  returns, and its results are, in order, one \<open>EmissionResult\<close> for each signal of
  \<open>get_signals_for_execution_unit\<close> that is not skipped and none for a skipped one. A
  signal is skipped exactly when its condition is \<open>on_success\<close> and the success flag is
  false, or its condition is \<open>on_failure\<close> and the flag is true. So \<open>always\<close>
  qualifies for both values of the flag, \<open>on_success\<close> only when it is true,
  \<open>on_failure\<close> only when it is false, and a signal with any other condition, or with
  none, yields a result for both values.
\<close>

theorem C5_trigger_evaluation:
  assumes ok: "registry_ok (fsr_registry (signal_registry e))"
    and consumers:
      "\<forall>d\<in>set (fst (get_signals_for_execution_unit (signal_registry e) unit_name)).
         sd_signal_type d = ''advisor'' \<and> \<not> trigger_skipped d ok \<longrightarrow>
         (\<exists>c. first_consumer (intended_consumers d) = Inr c)"
  shows "\<exists>results e'.
           emit_for_execution_unit e unit_name intent_id tenant_context execution_result ok =
             Inr (results, e') \<and>
           map result_key results =
             map signal_key
               (filter (\<lambda>d. \<not> trigger_skipped d ok)
                  (fst (get_signals_for_execution_unit (signal_registry e) unit_name))) \<and>
           (\<forall>d\<in>set (fst (get_signals_for_execution_unit (signal_registry e) unit_name)).
              signal_key d \<in> result_key ` set results \<longleftrightarrow>
              \<not> (trigger_condition d = ''on_success'' \<and> \<not> ok) \<and>
              \<not> (trigger_condition d = ''on_failure'' \<and> ok)) \<and>
           (\<forall>d\<in>set (fst (get_signals_for_execution_unit (signal_registry e) unit_name)).
              trigger_condition d = ''always'' \<or> trigger_condition d = ''on_success'' \<or>
              trigger_condition d = ''on_failure'' \<longrightarrow>
              (signal_key d \<in> result_key ` set results \<longleftrightarrow>
               trigger_qualifies (trigger_condition d) ok)) \<and>
           (\<forall>d\<in>set (fst (get_signals_for_execution_unit (signal_registry e) unit_name)).
              trigger_condition d \<noteq> ''on_success'' \<and> trigger_condition d \<noteq> ''on_failure'' \<longrightarrow>
              signal_key d \<in> result_key ` set results)"
proof -
  define r where "r = fst (get_registry (signal_registry e))"
  define f' where "f' = snd (get_registry (signal_registry e))"
  define sigs where "sigs = fst (get_signals_for_execution_unit (signal_registry e) unit_name)"
  have gr: "get_registry (signal_registry e) = (r, f')" by (simp add: r_def f'_def)
  have sigs_eq: "get_signals_for_execution_unit (signal_registry e) unit_name = (sigs, f')"
    by (simp add: sigs_def get_signals_for_execution_unit_def gr)
  have rok: "registry_ok r" unfolding r_def using ok by (rule registry_ok_get_registry)
  have sub: "set sigs \<subseteq> set (get_all r)"
    by (auto simp: sigs_def get_signals_for_execution_unit_def gr)
  have types: "\<forall>d\<in>set sigs. sd_signal_type d = ''metric'' \<or> sd_signal_type d = ''outcome'' \<or>
      sd_signal_type d = ''advisor''"
    using get_all_cases [OF rok] sub by blast
  have st: "settled (signal_registry (e\<lparr>signal_registry := f'\<rparr>))"
    by (simp add: f'_def settled_get_registry)
  from consumers have cons: "\<forall>d\<in>set sigs. sd_signal_type d = ''advisor'' \<and>
      \<not> trigger_skipped d ok \<longrightarrow> (\<exists>c. first_consumer (intended_consumers d) = Inr c)"
    by (simp add: sigs_def)
  from emit_signals_results [OF st types cons, of intent_id tenant_context execution_result "[]"]
  obtain rs e' where
    run: "emit_signals (e\<lparr>signal_registry := f'\<rparr>) intent_id tenant_context execution_result ok
            sigs [] = Inr (rs, e')"
    and keys: "map result_key rs = map signal_key (filter (\<lambda>d. \<not> trigger_skipped d ok) sigs)"
    by auto
  have ret: "emit_for_execution_unit e unit_name intent_id tenant_context execution_result ok =
      Inr (rs, e')"
    by (simp add: emit_for_execution_unit_def sigs_eq run)
  have present: "signal_key d \<in> result_key ` set rs \<longleftrightarrow> \<not> trigger_skipped d ok"
    if d: "d \<in> set sigs" for d
  proof -
    have "result_key ` set rs = signal_key ` set (filter (\<lambda>d. \<not> trigger_skipped d ok) sigs)"
      using keys by (metis set_map)
    then have "signal_key d \<in> result_key ` set rs \<longleftrightarrow>
        (\<exists>d'\<in>set sigs. \<not> trigger_skipped d' ok \<and> signal_key d = signal_key d')"
      by auto
    also have "\<dots> \<longleftrightarrow> \<not> trigger_skipped d ok"
      using signal_key_unique [OF rok] d sub by blast
    finally show ?thesis .
  qed
  have tests: "\<forall>d\<in>set sigs. signal_key d \<in> result_key ` set rs \<longleftrightarrow>
      \<not> (trigger_condition d = ''on_success'' \<and> \<not> ok) \<and>
      \<not> (trigger_condition d = ''on_failure'' \<and> ok)"
    using present by (simp add: trigger_skipped_def)
  have named: "\<forall>d\<in>set sigs. trigger_condition d = ''always'' \<or>
      trigger_condition d = ''on_success'' \<or> trigger_condition d = ''on_failure'' \<longrightarrow>
      (signal_key d \<in> result_key ` set rs \<longleftrightarrow> trigger_qualifies (trigger_condition d) ok)"
    using present qualifies_iff_not_skipped by simp
  have other: "\<forall>d\<in>set sigs. trigger_condition d \<noteq> ''on_success'' \<and>
      trigger_condition d \<noteq> ''on_failure'' \<longrightarrow> signal_key d \<in> result_key ` set rs"
    using present by (simp add: trigger_skipped_def)
  show ?thesis
    unfolding sigs_def [symmetric]
    using ret keys tests named other by (intro exI [of _ rs] exI [of _ e'] conjI)
qed

text \<open>
  C9. If \<open>metric_name\<close> is not registered as a metric signal (the lookup finds nothing,
  or finds a definition of another signal type), \<open>emit_metric\<close> returns a result with
  success false and the error \<open>Unknown metric: \<close> followed by the name, and makes no call
  on the observability spine.
\<close>

theorem C9_unknown_metric_no_sink_call:
  assumes "\<not> (\<exists>d. fst (get_signal (signal_registry e) metric_name) = Some d \<and>
                  sd_signal_type d = ''metric'')"
  shows "success (fst (emit_metric e metric_name intent_id tenant_context values)) = False \<and>
         error (fst (emit_metric e metric_name intent_id tenant_context values)) =
           Some (''Unknown metric: '' @ metric_name) \<and>
         error (fst (emit_metric e metric_name intent_id tenant_context values)) \<noteq> None \<and>
         spine_calls (snd (emit_metric e metric_name intent_id tenant_context values)) =
           spine_calls e"
  using assms
  by (cases "get_signal (signal_registry e) metric_name")
     (auto simp: emit_metric_def emit_defs split: prod.splits)

lemma example_registry:
  "get_registry (FeedbackSignalRegistry_init (Some example_signal_files)) =
     (\<lparr>metrics = [(''RowCount'', load_signal_from_data
                      (declared_signal ''RowCount'' ''metric'' ''on_success'' [''DataProfiler''] []))],
       outcomes = [(''ProfileFailed'', load_signal_from_data
                      (declared_signal ''ProfileFailed'' ''outcome'' ''on_failure''
                         [''DataProfiler''] []))],
       advisors = [(''PlacementHint'', load_signal_from_data
                      (declared_signal ''PlacementHint'' ''advisor'' ''always'' [''DataProfiler'']
                         [[(''consumer'', ''scheduler'')]]))]\<rparr>,
      \<lparr>signal_files = Some example_signal_files,
       fsr_registry =
         \<lparr>metrics = [(''RowCount'', load_signal_from_data
                      (declared_signal ''RowCount'' ''metric'' ''on_success'' [''DataProfiler''] []))],
          outcomes = [(''ProfileFailed'', load_signal_from_data
                      (declared_signal ''ProfileFailed'' ''outcome'' ''on_failure''
                         [''DataProfiler''] []))],
          advisors = [(''PlacementHint'', load_signal_from_data
                      (declared_signal ''PlacementHint'' ''advisor'' ''always'' [''DataProfiler'']
                         [[(''consumer'', ''scheduler'')]]))]\<rparr>,
       loaded = True, fsr_stdout = []\<rparr>)"
  by (simp add: get_registry_def load_def FeedbackSignalRegistry_init_def example_signal_files_def
      SignalRegistry_init_def add_def load_signal_from_data_def declared_signal_def
      get_default_def Let_def)

lemma example_signals:
  "fst (get_signals_for_execution_unit (signal_registry (example_emitter sp)) ''DataProfiler'') =
     [load_signal_from_data
        (declared_signal ''RowCount'' ''metric'' ''on_success'' [''DataProfiler''] []),
      load_signal_from_data
        (declared_signal ''ProfileFailed'' ''outcome'' ''on_failure'' [''DataProfiler''] []),
      load_signal_from_data
        (declared_signal ''PlacementHint'' ''advisor'' ''always'' [''DataProfiler'']
           [[(''consumer'', ''scheduler'')]])]"
  by (simp add: get_signals_for_execution_unit_def example_emitter_def example_registry
      get_all_def)
     (simp add: load_signal_from_data_def declared_signal_def get_default_def)

theorem C5_trigger_evaluation_witness:
  "\<exists>results e'.
     emit_for_execution_unit (example_emitter None) ''DataProfiler'' ''0000'' [] [] True =
       Inr (results, e') \<and>
     map result_key results = [(''RowCount'', ''metric''), (''PlacementHint'', ''advisor'')]"
proof -
  have h1: "registry_ok (fsr_registry (signal_registry (example_emitter None)))"
    by (simp add: example_emitter_def FeedbackSignalRegistry_init_def registry_ok_init)
  have h2: "\<forall>d\<in>set (fst (get_signals_for_execution_unit (signal_registry (example_emitter None))
                ''DataProfiler'')).
      sd_signal_type d = ''advisor'' \<and> \<not> trigger_skipped d True \<longrightarrow>
      (\<exists>c. first_consumer (intended_consumers d) = Inr c)"
    by (simp add: example_signals)
       (simp add: load_signal_from_data_def declared_signal_def get_default_def
          first_consumer_def)
  from C5_trigger_evaluation [OF h1 h2, of "''0000''" "[]" "[]"]
  obtain results e' where
    r: "emit_for_execution_unit (example_emitter None) ''DataProfiler'' ''0000'' [] [] True =
          Inr (results, e')"
    and k: "map result_key results =
          map signal_key
            (filter (\<lambda>d. \<not> trigger_skipped d True)
               (fst (get_signals_for_execution_unit (signal_registry (example_emitter None))
                  ''DataProfiler'')))"
    by blast
  from k have "map result_key results = [(''RowCount'', ''metric''), (''PlacementHint'', ''advisor'')]"
    by (simp add: example_signals)
       (simp add: trigger_skipped_def trigger_condition_def signal_key_def
          load_signal_from_data_def declared_signal_def get_default_def)
  with r show ?thesis
    by (intro exI [of _ results] exI [of _ e'] conjI)
qed

lemma irregular_registry:
  "get_registry (FeedbackSignalRegistry_init (Some irregular_signal_files)) =
     (\<lparr>metrics = [(''RowCount'', load_signal_from_data
                      (declared_signal ''RowCount'' ''metric'' ''never''
                         [''DataProfiler'', ''DataWriter''] []))],
       outcomes = [],
       advisors = [(''PlacementHint'', load_signal_from_data
                      (declared_signal ''PlacementHint'' ''advisor'' ''always'' [''DataProfiler'']
                         [[(''name'', ''scheduler'')]]))]\<rparr>,
      \<lparr>signal_files = Some irregular_signal_files,
       fsr_registry =
         \<lparr>metrics = [(''RowCount'', load_signal_from_data
                      (declared_signal ''RowCount'' ''metric'' ''never''
                         [''DataProfiler'', ''DataWriter''] []))],
          outcomes = [],
          advisors = [(''PlacementHint'', load_signal_from_data
                      (declared_signal ''PlacementHint'' ''advisor'' ''always'' [''DataProfiler'']
                         [[(''name'', ''scheduler'')]]))]\<rparr>,
       loaded = True, fsr_stdout = []\<rparr>)"
  by (simp add: get_registry_def load_def FeedbackSignalRegistry_init_def
      irregular_signal_files_def SignalRegistry_init_def add_def load_signal_from_data_def
      declared_signal_def get_default_def Let_def)

lemma emit_signals_advisor_raises:
  "\<not> trigger_skipped d ok \<Longrightarrow> sd_signal_type d = ''advisor'' \<Longrightarrow>
   first_consumer (intended_consumers d) = Inl err \<Longrightarrow>
   emit_signals e i t v ok (d # sigs) results = Inl err"
  by (auto simp: trigger_skipped_def trigger_condition_def Let_def)

lemma emit_for_execution_unit_unfold:
  "emit_for_execution_unit e u i t v ok =
     emit_signals (e\<lparr>signal_registry := snd (get_signals_for_execution_unit (signal_registry e) u)\<rparr>)
       i t v ok (fst (get_signals_for_execution_unit (signal_registry e) u)) []"
  by (simp add: emit_for_execution_unit_def split: prod.splits)

lemma irregular_profiler_signals:
  "fst (get_signals_for_execution_unit (signal_registry irregular_emitter) ''DataProfiler'') =
     [load_signal_from_data (declared_signal ''RowCount'' ''metric'' ''never''
        [''DataProfiler'', ''DataWriter''] []),
      load_signal_from_data (declared_signal ''PlacementHint'' ''advisor'' ''always''
        [''DataProfiler''] [[(''name'', ''scheduler'')]])]"
  by (simp add: get_signals_for_execution_unit_def irregular_emitter_def irregular_registry
      get_all_def)
     (simp add: load_signal_from_data_def declared_signal_def get_default_def)

lemma irregular_writer_signals:
  "fst (get_signals_for_execution_unit (signal_registry irregular_emitter) ''DataWriter'') =
     [load_signal_from_data (declared_signal ''RowCount'' ''metric'' ''never''
        [''DataProfiler'', ''DataWriter''] [])]"
  by (simp add: get_signals_for_execution_unit_def irregular_emitter_def irregular_registry
      get_all_def)
     (simp add: load_signal_from_data_def declared_signal_def get_default_def)

lemma irregular_metric:
  "\<not> trigger_skipped (load_signal_from_data (declared_signal ''RowCount'' ''metric'' ''never''
        [''DataProfiler'', ''DataWriter''] [])) ok"
  "sd_signal_type (load_signal_from_data (declared_signal ''RowCount'' ''metric'' ''never''
        [''DataProfiler'', ''DataWriter''] [])) = ''metric''"
  "sd_name (load_signal_from_data (declared_signal ''RowCount'' ''metric'' ''never''
        [''DataProfiler'', ''DataWriter''] [])) = ''RowCount''"
  by (simp_all add: trigger_skipped_def trigger_condition_def load_signal_from_data_def
      declared_signal_def get_default_def)

lemma irregular_advisor:
  "\<not> trigger_skipped (load_signal_from_data (declared_signal ''PlacementHint'' ''advisor''
        ''always'' [''DataProfiler''] [[(''name'', ''scheduler'')]])) ok"
  "sd_signal_type (load_signal_from_data (declared_signal ''PlacementHint'' ''advisor''
        ''always'' [''DataProfiler''] [[(''name'', ''scheduler'')]])) = ''advisor''"
  "sd_name (load_signal_from_data (declared_signal ''PlacementHint'' ''advisor''
        ''always'' [''DataProfiler''] [[(''name'', ''scheduler'')]])) = ''PlacementHint''"
  "first_consumer (intended_consumers (load_signal_from_data (declared_signal ''PlacementHint''
        ''advisor'' ''always'' [''DataProfiler''] [[(''name'', ''scheduler'')]]))) =
     Inl (KeyError ''consumer'')"
  by (simp_all add: trigger_skipped_def trigger_condition_def load_signal_from_data_def
      declared_signal_def get_default_def first_consumer_def)

lemma irregular_writer_run:
  "map_sum id (map result_key \<circ> fst)
     (emit_for_execution_unit irregular_emitter ''DataWriter'' ''0000'' [] [] ok) =
     Inr [(''RowCount'', ''metric'')]"
proof -
  let ?e1 = "irregular_emitter\<lparr>signal_registry :=
      snd (get_signals_for_execution_unit (signal_registry irregular_emitter) ''DataWriter'')\<rparr>"
  obtain r e2 where em: "emit_metric ?e1 ''RowCount'' ''0000'' [] [] = (r, e2)"
    by (cases "emit_metric ?e1 ''RowCount'' ''0000'' [] []")
  have key: "result_key r = (''RowCount'', ''metric'')"
    using emit_metric_key [of ?e1 "''RowCount''" "''0000''" "[]" "[]"] em by simp
  have "emit_for_execution_unit irregular_emitter ''DataWriter'' ''0000'' [] [] ok =
      Inr ([r], e2)"
    using emit_signals_metric [OF irregular_metric(1) irregular_metric(2), of ?e1 "''0000''" "[]" "[]"
        r e2 ok "[]" "[]"] em
    by (simp del: emit_signals.simps(2)
        add: emit_for_execution_unit_unfold irregular_writer_signals irregular_metric(3))
  then show ?thesis by (simp add: key)
qed

text \<open>
  C5 (as stated, refuted at a concrete input). In the irregular directory the unit
  \<open>DataProfiler\<close> has a metric and an advisor whose condition is \<open>always\<close>, and the
  advisor's first consumer entry has no key \<open>consumer\<close>: the subscript raises
  \<open>KeyError\<close>, the call returns no result at all, with the success flag true, so the
  advisor, whose condition qualifies, has no \<open>EmissionResult\<close>. For the unit
  \<open>DataWriter\<close> the only signal has the condition \<open>never\<close>, which is none of the
  qualifying ones, and it yields a result for both values of the flag.
\<close>

theorem C5_raising_consumer_lookup_counterexample:
  "map signal_key (fst (get_signals_for_execution_unit (signal_registry irregular_emitter)
      ''DataProfiler'')) = [(''RowCount'', ''metric''), (''PlacementHint'', ''advisor'')] \<and>
   emit_for_execution_unit irregular_emitter ''DataProfiler'' ''0000'' [] [] True =
     Inl (KeyError ''consumer'') \<and>
   map_sum id (map result_key \<circ> fst)
     (emit_for_execution_unit irregular_emitter ''DataWriter'' ''0000'' [] [] True) =
     Inr [(''RowCount'', ''metric'')] \<and>
   map_sum id (map result_key \<circ> fst)
     (emit_for_execution_unit irregular_emitter ''DataWriter'' ''0000'' [] [] False) =
     Inr [(''RowCount'', ''metric'')]"
proof -
  let ?e1 = "irregular_emitter\<lparr>signal_registry :=
      snd (get_signals_for_execution_unit (signal_registry irregular_emitter) ''DataProfiler'')\<rparr>"
  obtain r e2 where em: "emit_metric ?e1 ''RowCount'' ''0000'' [] [] = (r, e2)"
    by (cases "emit_metric ?e1 ''RowCount'' ''0000'' [] []")
  have keys: "map signal_key (fst (get_signals_for_execution_unit
      (signal_registry irregular_emitter) ''DataProfiler'')) =
      [(''RowCount'', ''metric''), (''PlacementHint'', ''advisor'')]"
    by (simp add: irregular_profiler_signals signal_key_def irregular_metric irregular_advisor)
  let ?m = "load_signal_from_data (declared_signal ''RowCount'' ''metric'' ''never''
        [''DataProfiler'', ''DataWriter''] [])"
  let ?a = "load_signal_from_data (declared_signal ''PlacementHint'' ''advisor'' ''always''
        [''DataProfiler''] [[(''name'', ''scheduler'')]])"
  have s1: "emit_signals ?e1 ''0000'' [] [] True [?m, ?a] [] =
      emit_signals e2 ''0000'' [] [] True [?a] ([] @ [r])"
    by (rule emit_signals_metric [OF irregular_metric(1) irregular_metric(2)])
       (simp add: irregular_metric(3) em)
  have s2: "emit_signals e2 ''0000'' [] [] True [?a] ([] @ [r]) = Inl (KeyError ''consumer'')"
    by (rule emit_signals_advisor_raises
          [OF irregular_advisor(1) irregular_advisor(2) irregular_advisor(4)])
  have raises: "emit_for_execution_unit irregular_emitter ''DataProfiler'' ''0000'' [] [] True =
      Inl (KeyError ''consumer'')"
    using s1 s2
    by (simp del: emit_signals.simps(2)
        add: emit_for_execution_unit_unfold irregular_profiler_signals)
  show ?thesis
    using keys raises irregular_writer_run [of True] irregular_writer_run [of False] by simp
qed

theorem C9_unknown_metric_no_sink_call_witness:
  "success (fst (emit_metric (example_emitter (Some (\<lambda>h c. Returns True)))
                   ''ProfileFailed'' ''0000'' [] [])) = False \<and>
   error (fst (emit_metric (example_emitter (Some (\<lambda>h c. Returns True)))
                   ''ProfileFailed'' ''0000'' [] [])) = Some ''Unknown metric: ProfileFailed'' \<and>
   spine_calls (snd (emit_metric (example_emitter (Some (\<lambda>h c. Returns True)))
                   ''ProfileFailed'' ''0000'' [] [])) = []"
proof -
  have h: "\<not> (\<exists>d. fst (get_signal (signal_registry (example_emitter (Some (\<lambda>h c. Returns True))))
                        ''ProfileFailed'') = Some d \<and> sd_signal_type d = ''metric'')"
    by (simp add: get_signal_def example_emitter_def example_registry get_def)
       (simp add: load_signal_from_data_def declared_signal_def get_default_def)
  show ?thesis
    using C9_unknown_metric_no_sink_call [OF h, of "''0000''" "[]" "[]"]
    by (simp add: example_emitter_def)
qed

text \<open>
  C1 (the code at the failing input). On the example emitter, whose registry knows no
  signal \<open>NoSuchSignal\<close>, \<open>emit_metric\<close> returns a failed \<open>EmissionResult\<close> but the audit
  log is as before the call: \<open>get_emissions\<close> is still empty and does not hold the
  returned result. The same holds of \<open>emit_outcome\<close> on a name registered as a metric and
  of \<open>emit_advisor\<close> on an unknown name. A failed result that comes from the spine raising
  is recorded.
\<close>

theorem C1_unknown_signal_not_recorded:
  "success (fst (emit_metric (example_emitter (Some (\<lambda>h c. Returns True)))
                   ''NoSuchSignal'' ''0000'' [] [])) = False \<and>
   get_emissions (snd (emit_metric (example_emitter (Some (\<lambda>h c. Returns True)))
                   ''NoSuchSignal'' ''0000'' [] [])) = [] \<and>
   get_emissions (snd (emit_outcome (example_emitter (Some (\<lambda>h c. Returns True)))
                   ''RowCount'' ''0000'' [] [])) = [] \<and>
   get_emissions (snd (emit_advisor (example_emitter (Some (\<lambda>h c. Returns True)))
                   ''NoSuchSignal'' ''0000'' [] [] ''scheduler'')) = [] \<and>
   get_emissions (snd (emit_metric (example_emitter (Some (\<lambda>h c. Raises ''down'')))
                   ''RowCount'' ''0000'' [] [])) =
     [fst (emit_metric (example_emitter (Some (\<lambda>h c. Raises ''down'')))
                   ''RowCount'' ''0000'' [] [])] \<and>
   success (fst (emit_metric (example_emitter (Some (\<lambda>h c. Raises ''down'')))
                   ''RowCount'' ''0000'' [] [])) = False"
  by (simp add: emit_metric_def emit_outcome_def emit_advisor_def get_emissions_def
      get_signal_def example_emitter_def example_registry get_def emit_defs build_payload_def)
     (simp add: load_signal_from_data_def declared_signal_def get_default_def)

section \<open>Registry card loader: results\<close>

lemma load_loop_client [simp]: "registry_client (snd (load_loop cards results l)) = registry_client l"
  by (induction cards arbitrary: results l)
     (auto simp: Let_def rl_print_def split: outcome.splits)

lemma discover_loop_client [simp]:
  "registry_client (snd (discover_loop files cards l)) = registry_client l"
  by (induction files cards l rule: discover_loop.induct) (simp_all add: rl_print_def)

lemma load_all_client: "registry_client (snd (load_all l)) = registry_client l"
  by (simp add: load_all_def discover_cards_def split: prod.splits option.splits)
     (metis discover_loop_client load_loop_client snd_conv)

lemma load_loop_distinct:
  "distinct (map fst (registered_cards l)) \<Longrightarrow>
   distinct (map fst (registered_cards (snd (load_loop cards results l))))"
  by (induction cards arbitrary: results l)
     (auto simp: Let_def rl_print_def distinct_update split: outcome.splits)

lemma discover_loop_registered [simp]:
  "registered_cards (snd (discover_loop files cards l)) = registered_cards l"
  by (induction files cards l rule: discover_loop.induct) (simp_all add: rl_print_def)

lemma load_all_distinct:
  "distinct (map fst (registered_cards l)) \<Longrightarrow>
   distinct (map fst (registered_cards (snd (load_all l))))"
  by (cases "discover_cards l")
     (auto simp: load_all_def discover_cards_def load_loop_distinct split: option.splits
           dest!: arg_cong [where f = snd] intro!: load_loop_distinct)

lemma delete_absent: "n \<notin> fst ` set xs \<Longrightarrow> AList.delete n xs = xs"
  by (induction xs) (auto simp: AList.delete_eq)

lemma delete_middle:
  assumes "distinct (map fst (kept @ (n, i) # snap))"
  shows "AList.delete n (kept @ (n, i) # snap) = kept @ snap"
proof -
  from assms have a: "n \<notin> fst ` set kept" and b: "n \<notin> fst ` set snap" by auto
  have "AList.delete n (kept @ (n, i) # snap) =
        AList.delete n kept @ AList.delete n ((n, i) # snap)"
    by (simp add: AList.delete_eq)
  also have "\<dots> = kept @ AList.delete n snap"
    using a by (simp add: delete_absent)
  also have "\<dots> = kept @ snap"
    using b by (simp add: delete_absent)
  finally show ?thesis .
qed

lemma unload_loop_keeps:
  assumes "registered_cards l = kept @ snap" "distinct (map fst (kept @ snap))"
  shows "registered_cards (snd (unload_loop snap results l)) =
           kept @ not_unregistered snap
                    (unregister_outcomes (registry_client l) (client_calls l) snap)"
  using assms
proof (induction snap arbitrary: l kept results)
  case Nil
  then show ?case by (simp add: not_unregistered_def)
next
  case (Cons p snap)
  obtain n i where p: "p = (n, i)" by (cases p)
  let ?l1 = "l\<lparr>client_calls := client_calls l @ [UnregisterCapability i]\<rparr>"
  let ?out = "unregister_capability (registry_client l) (client_calls l) i"
  have mem: "n \<in> fst ` set (registered_cards ?l1)"
    using Cons.prems(1) p by force
  show ?case
  proof (cases ?out)
    case (Returns ok)
    show ?thesis
    proof (cases ok)
      case True
      let ?l2 = "?l1\<lparr>registered_cards := AList.delete n (registered_cards ?l1)\<rparr>"
      have r: "registered_cards ?l2 = kept @ snap"
        using Cons.prems p by (simp add: delete_middle)
      have d: "distinct (map fst (kept @ snap))" using Cons.prems(2) by simp
      from Cons.IH [OF r d, of "AList.update n True results"] Returns True mem p
      show ?thesis by (simp add: Let_def not_unregistered_def)
    next
      case False
      have r: "registered_cards ?l1 = (kept @ [(n, i)]) @ snap"
        using Cons.prems(1) p by simp
      have d: "distinct (map fst ((kept @ [(n, i)]) @ snap))" using Cons.prems(2) p by simp
      from Cons.IH [OF r d, of "AList.update n False results"] Returns False p
      show ?thesis by (simp add: Let_def not_unregistered_def)
    qed
  next
    case (Raises e)
    let ?l2 = "rl_print (''Warning: Failed to unregister card '' @ n @ '': '' @ e) ?l1"
    have r: "registered_cards ?l2 = (kept @ [(n, i)]) @ snap"
      using Cons.prems(1) p by (simp add: rl_print_def)
    have d: "distinct (map fst ((kept @ [(n, i)]) @ snap))" using Cons.prems(2) p by simp
    from Cons.IH [OF r d, of "AList.update n False results"] Raises p
    show ?thesis by (simp add: Let_def not_unregistered_def rl_print_def)
  qed
qed

lemma length_unregister_outcomes [simp]:
  "length (unregister_outcomes client calls snap) = length snap"
  by (induction client calls snap rule: unregister_outcomes.induct) simp_all

lemma length_not_unregistered:
  "length snap = length outs \<Longrightarrow>
   length (not_unregistered snap outs) = length (filter (\<lambda>out. out \<noteq> Returns True) outs)"
  by (induction snap outs rule: list_induct2) (simp_all add: not_unregistered_def)

text \<open>
  C3 (amended). Let the table of registered cards be a dict (pairwise different keys), as
  it is in every loader. Whatever \<open>register_capability\<close> does, after \<open>load_all\<close>
  followed by \<open>unload_all\<close> the table holds exactly the cards whose
  \<open>unregister_capability\<close> call, as made during \<open>unload_all\<close>, did not return true
  (it returned false or raised), in their order; a card whose call returned true is
  removed. So \<open>get_card_count\<close> is then the number of calls that did not return true,
  and it is 0 exactly when every call made returned true.
\<close>

theorem C3_unload_keeps_exactly_the_failed_cards:
  assumes "distinct (map fst (registered_cards l))"
  shows "registered_cards (snd (unload_all (snd (load_all l)))) =
           not_unregistered (registered_cards (snd (load_all l)))
             (unregister_outcomes (registry_client (snd (load_all l)))
                (client_calls (snd (load_all l))) (registered_cards (snd (load_all l)))) \<and>
         get_card_count (snd (unload_all (snd (load_all l)))) =
           length (filter (\<lambda>out. out \<noteq> Returns True)
             (unregister_outcomes (registry_client (snd (load_all l)))
                (client_calls (snd (load_all l))) (registered_cards (snd (load_all l))))) \<and>
         (get_card_count (snd (unload_all (snd (load_all l)))) = 0 \<longleftrightarrow>
            (\<forall>out \<in> set (unregister_outcomes (registry_client (snd (load_all l)))
                (client_calls (snd (load_all l))) (registered_cards (snd (load_all l)))).
               out = Returns True))"
proof -
  define l1 where "l1 = snd (load_all l)"
  define outs where
    "outs = unregister_outcomes (registry_client l1) (client_calls l1) (registered_cards l1)"
  have d: "distinct (map fst ([] @ registered_cards l1))"
    unfolding l1_def using assms by (simp add: load_all_distinct)
  have keep: "registered_cards (snd (unload_all l1)) = not_unregistered (registered_cards l1) outs"
    using unload_loop_keeps [of l1 "[]" "registered_cards l1" "[]"] d
    by (simp add: unload_all_def outs_def)
  have len: "length (registered_cards l1) = length outs" by (simp add: outs_def)
  have cnt: "get_card_count (snd (unload_all l1)) =
      length (filter (\<lambda>out. out \<noteq> Returns True) outs)"
    by (simp add: get_card_count_def keep length_not_unregistered [OF len])
  have zero: "get_card_count (snd (unload_all l1)) = 0 \<longleftrightarrow> (\<forall>out\<in>set outs. out = Returns True)"
    by (simp add: cnt filter_empty_conv)
  show ?thesis
    using keep cnt zero unfolding l1_def outs_def l1_def by simp
qed

lemmas loader_example_defs =
  load_all_def discover_cards_def RegistryCardLoader_init_def example_card_files_def
  load_card_from_data_def declared_card_def get_default_def Let_def rl_print_def

lemma selective_loaded:
  "registered_cards (snd (load_all (RegistryCardLoader_init selective_client
      (Some example_card_files)))) = [(''Untyped'', ''Untyped''), (''DataWriter'', ''DataWriter'')]"
  by (simp add: loader_example_defs selective_client_def)

lemma remembering_loaded:
  "registered_cards (snd (load_all (RegistryCardLoader_init remembering_client
      (Some example_card_files)))) = [(''Untyped'', ''Untyped''), (''DataWriter'', ''DataWriter'')]"
  by (simp add: loader_example_defs remembering_client_def)

theorem C3_unload_keeps_exactly_the_failed_cards_witness:
  "registered_cards (snd (unload_all (snd (load_all
      (RegistryCardLoader_init selective_client (Some example_card_files)))))) =
     [(''Untyped'', ''Untyped'')] \<and>
   get_card_count (snd (unload_all (snd (load_all
      (RegistryCardLoader_init selective_client (Some example_card_files)))))) = 1 \<and>
   get_card_count (snd (unload_all (snd (load_all
      (RegistryCardLoader_init remembering_client (Some example_card_files)))))) = 0"
proof -
  have h1: "distinct (map fst (registered_cards
      (RegistryCardLoader_init selective_client (Some example_card_files))))"
    by (simp add: RegistryCardLoader_init_def)
  have h2: "distinct (map fst (registered_cards
      (RegistryCardLoader_init remembering_client (Some example_card_files))))"
    by (simp add: RegistryCardLoader_init_def)
  have c1: "registry_client (snd (load_all (RegistryCardLoader_init selective_client
      (Some example_card_files)))) = selective_client"
    by (simp add: load_all_client RegistryCardLoader_init_def)
  have c2: "registry_client (snd (load_all (RegistryCardLoader_init remembering_client
      (Some example_card_files)))) = remembering_client"
    by (simp add: load_all_client RegistryCardLoader_init_def)
  have k2: "client_calls (snd (load_all (RegistryCardLoader_init remembering_client
      (Some example_card_files)))) =
      [RegisterCapability (load_card_from_data (declared_card ''Untyped'' None)) 0,
       RegisterCapability (load_card_from_data (declared_card ''DataWriter''
          (Some ''data-writing''))) 1]"
    by (simp add: loader_example_defs remembering_client_def)
  note t1 = C3_unload_keeps_exactly_the_failed_cards [OF h1, unfolded selective_loaded c1]
  note t2 = C3_unload_keeps_exactly_the_failed_cards [OF h2, unfolded remembering_loaded c2 k2]
  have o1: "unregister_outcomes selective_client
      (client_calls (snd (load_all (RegistryCardLoader_init selective_client
         (Some example_card_files)))))
      [(''Untyped'', ''Untyped''), (''DataWriter'', ''DataWriter'')] =
      [Returns False, Returns True]"
    by (simp add: selective_client_def)
  have o2: "unregister_outcomes remembering_client
      [RegisterCapability (load_card_from_data (declared_card ''Untyped'' None)) 0,
       RegisterCapability (load_card_from_data (declared_card ''DataWriter''
          (Some ''data-writing''))) 1]
      [(''Untyped'', ''Untyped''), (''DataWriter'', ''DataWriter'')] =
      [Returns True, Returns True]"
    by (simp add: remembering_client_def issued_def load_card_from_data_def declared_card_def
        get_default_def)
  show ?thesis
    using t1 [unfolded o1] t2 [unfolded o2]
    by (simp add: not_unregistered_def)
qed

text \<open>
  C3 (as stated, refuted at a concrete input). Two cards are registered by \<open>load_all\<close>.
  With a client whose \<open>unregister_capability\<close> returns false, and with one whose
  \<open>unregister_capability\<close> raises, \<open>unload_all\<close> keeps both cards in the table:
  \<open>get_card_count\<close> is 2 afterwards, not 0.
\<close>

theorem C3_failed_unregistration_counterexample:
  "get_card_count (snd (unload_all (snd (load_all
      (RegistryCardLoader_init (example_client (Returns False)) (Some example_card_files)))))) = 2 \<and>
   get_card_count (snd (unload_all (snd (load_all
      (RegistryCardLoader_init (example_client (Raises ''registry down''))
         (Some example_card_files)))))) = 2"
  by (simp add: get_card_count_def unload_all_def load_all_def discover_cards_def
      RegistryCardLoader_init_def example_client_def example_card_files_def
      load_card_from_data_def declared_card_def get_default_def Let_def rl_print_def)

text \<open>
  C2 (the code at the failing input). The cards directory holds two sources that parse:
  the first has no \<open>capability.type\<close>, the second is complete. \<open>discover_cards\<close>
  returns both, the first with the empty string as capability type, and prints no
  warning: every field is read with a default, so a missing field never raises the
  \<open>KeyError\<close> that the loop catches.
\<close>

theorem C2_source_without_capability_type_is_loaded:
  "map card_name (fst (discover_cards
      (RegistryCardLoader_init (example_client (Returns True)) (Some example_card_files)))) =
     [''Untyped'', ''DataWriter''] \<and>
   map card_capability_type (fst (discover_cards
      (RegistryCardLoader_init (example_client (Returns True)) (Some example_card_files)))) =
     ['''', ''data-writing''] \<and>
   length (fst (discover_cards
      (RegistryCardLoader_init (example_client (Returns True)) (Some example_card_files)))) = 2 \<and>
   rl_stdout (snd (discover_cards
      (RegistryCardLoader_init (example_client (Returns True)) (Some example_card_files)))) = []"
  by (simp add: discover_cards_def RegistryCardLoader_init_def example_card_files_def
      load_card_from_data_def declared_card_def get_default_def Let_def)

end
